theory Spec2Isabelle
  imports Main "HOL-Library.Word"
begin

section \<open>Strings, form values and the helper functions of server.js\<close>

text \<open>
  A JavaScript string is modelled as a \<^typ>\<open>string\<close>; each \<^typ>\<open>char\<close> stands for one
  UTF-16 code unit below 256, so \<open>length\<close> is the \<open>.length\<close> of the source on such strings.
  Of the characters that \<open>String.prototype.trim\<close> strips and that the regular expression
  class \<open>\s\<close> matches, these seven lie in that range: TAB, LF, VT, FF, CR, SPACE and NBSP.
\<close>

definition is_space :: "char \<Rightarrow> bool" where
  "is_space c = (c \<in> set [CHR 0x09, CHR 0x0A, CHR 0x0B, CHR 0x0C, CHR 0x0D, CHR 0x20, CHR 0xA0])"

definition trim :: "string \<Rightarrow> string" where
  "trim s = rev (dropWhile is_space (rev (dropWhile is_space s)))"

text \<open>
  A field of \<open>req.body\<close>. The body parser runs with \<open>extended: true\<close>, so a field is
  absent, a string, or an array or object (\<open>NonString\<close>).
\<close>

datatype form_value = Undefined | Str string | NonString

text \<open>
  \<open>function sanitize(str) { return (str || "").trim(); }\<close>
  An array or object is truthy and has no \<open>trim\<close> method: the call throws a TypeError,
  here the value \<open>None\<close>.
\<close>

definition sanitize :: "form_value \<Rightarrow> string option" where
  "sanitize str = (case str of
       Undefined \<Rightarrow> Some (trim [])
     | Str s \<Rightarrow> Some (trim s)
     | NonString \<Rightarrow> None)"

subsection \<open>isValidEmail\<close>

text \<open>
  \<open>function isValidEmail(email) { return /^[^\s@]+@[^\s@]+\.[^\s@]+$/.test(email); }\<close>
  The pattern is anchored at both ends and has no flags, so \<open>test\<close> holds exactly when the
  whole string is in the language of the pattern. The pattern is built from three forms:
  a literal character, a character class under \<open>+\<close>, and concatenation.
\<close>

datatype regex = Lit char | PlusClass "char \<Rightarrow> bool" | Cat regex regex

fun splits :: "'a list \<Rightarrow> ('a list \<times> 'a list) list" where
  "splits [] = [([], [])]"
| "splits (x # xs) = ([], x # xs) # map (\<lambda>(u, v). (x # u, v)) (splits xs)"

fun matches :: "regex \<Rightarrow> string \<Rightarrow> bool" where
  "matches (Lit c) s = (s = [c])"
| "matches (PlusClass p) s = (s \<noteq> [] \<and> list_all p s)"
| "matches (Cat r1 r2) s = list_ex (\<lambda>(u, v). matches r1 u \<and> matches r2 v) (splits s)"

definition not_space_at :: "char \<Rightarrow> bool" where
  "not_space_at c = (\<not> is_space c \<and> c \<noteq> CHR ''@'')"

definition email_regex :: regex where
  "email_regex =
     Cat (PlusClass not_space_at)
       (Cat (Lit (CHR ''@''))
         (Cat (PlusClass not_space_at)
           (Cat (Lit (CHR ''.'')) (PlusClass not_space_at))))"

definition isValidEmail :: "string \<Rightarrow> bool" where
  "isValidEmail email = matches email_regex email"

subsection \<open>Tokens\<close>

text \<open>
  \<open>function generateToken() { return crypto.randomBytes(16).toString("hex"); }\<close>
  The random source of the \<open>crypto\<close> module is a parameter: a stream of bytes, read from
  an offset so that two calls in one request read different bytes.
\<close>

type_synonym byte = "8 word"

definition randomBytes :: "(nat \<Rightarrow> byte) \<Rightarrow> nat \<Rightarrow> nat \<Rightarrow> byte list" where
  "randomBytes src off n = map (\<lambda>i. src (off + i)) [0..<n]"

definition hex_digit :: "nat \<Rightarrow> char" where
  "hex_digit n = ''0123456789abcdef'' ! n"

definition hex_byte :: "byte \<Rightarrow> string" where
  "hex_byte b = [hex_digit (unat b div 16), hex_digit (unat b mod 16)]"

definition toString_hex :: "byte list \<Rightarrow> string" where
  "toString_hex bs = concat (map hex_byte bs)"

definition generateToken :: "(nat \<Rightarrow> byte) \<Rightarrow> nat \<Rightarrow> string" where
  "generateToken src off = toString_hex (randomBytes src off 16)"

text \<open>
  The first revision of server.js (its \<open>POST /dashboard\<close> calls this function):
  \<open>function cryptoRandomToken() {
       return Math.random().toString(36).slice(2) + Date.now().toString(36); }\<close>
  \<open>Date.now()\<close> is a natural number of milliseconds; \<open>toString(36)\<close> writes it in base
  36 with the digits \<open>0-9a-z\<close>. The base-36 text of the floating-point \<open>Math.random()\<close>
  (such as \<open>0.4fzyo82mvyr\<close>) is a parameter.
\<close>

definition digit36 :: "nat \<Rightarrow> char" where
  "digit36 n = ''0123456789abcdefghijklmnopqrstuvwxyz'' ! n"

function toString36 :: "nat \<Rightarrow> string" where
  "toString36 n = (if n < 36 then [digit36 n] else toString36 (n div 36) @ [digit36 (n mod 36)])"
  by pat_completeness auto
termination
  by (relation "measure id") auto

declare toString36.simps [simp del]

definition slice_from :: "nat \<Rightarrow> string \<Rightarrow> string" where
  "slice_from k s = drop k s"

definition cryptoRandomToken :: "string \<Rightarrow> nat \<Rightarrow> string" where
  "cryptoRandomToken random36 now = slice_from 2 random36 @ toString36 now"

section \<open>The store: the tables of db/schema.sql\<close>

text \<open>
  One record per table row, one field per column (the \<open>created_at\<close> columns, which only
  order the listings, are left out). The status columns have type \<open>text\<close> in the schema
  and are strings here. A \<open>uuid\<close> is compared as the store compares it.
\<close>

type_synonym uuid = string

record user =
  u_id :: uuid
  u_full_name :: string
  u_email :: string

record item =
  i_id :: uuid
  i_user_id :: uuid
  i_item_name :: string
  i_item_description :: "string option"
  i_category :: string
  i_item_status :: string
  i_image_url :: "string option"
  i_token :: string
  i_qr_data_url :: string

record finder_report =
  r_id :: int
  r_item_id :: uuid
  r_finder_name :: string
  r_finder_email :: string
  r_location_hint :: "string option"
  r_message :: string
  r_status :: string

record found_post =
  p_id :: int
  p_finder_name :: string
  p_finder_email :: string
  p_item_name :: string
  p_item_description :: "string option"
  p_category :: string
  p_location_found :: "string option"
  p_image_url :: "string option"
  p_status :: string

text \<open>
  The two \<open>bigserial\<close> columns draw their values from a sequence each. The table
  \<open>users\<close> is written by \<open>/signup\<close>, \<open>/account\<close> and \<open>/account/password\<close> only, which
  touch no other table; the handlers below only read it.
\<close>

record db =
  users :: "user list"
  items :: "item list"
  finder_reports :: "finder_report list"
  found_posts :: "found_post list"
  finder_reports_seq :: int
  found_posts_seq :: int

text \<open>
  What a request gets from outside the store: the settings, the random source, the QR
  generator and the image transcoder (which both may throw: \<open>None\<close>), the blob store
  (whose upload may report an error), a store-side failure of an insert, and the value of
  \<open>gen_random_uuid()\<close> for a new item.
\<close>

record env =
  BASE_URL :: string
  random :: "nat \<Rightarrow> byte"
  qr_toDataURL :: "string \<Rightarrow> string option"
  sharp_compress :: "byte list \<Rightarrow> byte list option"
  storage_upload_error :: "string \<Rightarrow> byte list \<Rightarrow> bool"
  storage_public_url :: "string \<Rightarrow> string"
  insert_error :: bool
  gen_random_uuid :: uuid

text \<open>
  \<open>.maybeSingle()\<close> and \<open>.single()\<close>: the row when the query returns exactly one; with
  no row or several the \<open>data\<close> is null (the two differ only in the \<open>error\<close> they set,
  which the handlers do not read).
\<close>

definition maybeSingle :: "'a list \<Rightarrow> 'a option" where
  "maybeSingle rows = (case rows of [r] \<Rightarrow> Some r | _ \<Rightarrow> None)"

definition single :: "'a list \<Rightarrow> 'a option" where
  "single rows = (case rows of [r] \<Rightarrow> Some r | _ \<Rightarrow> None)"

text \<open>
  Inserts. The store reports an error (\<open>None\<close>) when the request's insert fails on the
  store's side, or when the row breaks a primary key or the \<open>unique\<close> constraint of
  \<open>items.token\<close>; the tables are then as before.
\<close>

definition insert_item :: "env \<Rightarrow> item \<Rightarrow> db \<Rightarrow> db option" where
  "insert_item env row d =
     (if insert_error env \<or> i_id row \<in> set (map i_id (items d))
         \<or> i_token row \<in> set (map i_token (items d))
      then None
      else Some (d\<lparr>items := items d @ [row]\<rparr>))"

definition insert_finder_report :: "env \<Rightarrow> finder_report \<Rightarrow> db \<Rightarrow> db option" where
  "insert_finder_report env row d =
     (if insert_error env \<or> r_id row \<in> set (map r_id (finder_reports d))
      then None
      else Some (d\<lparr>finder_reports := finder_reports d @ [row],
                    finder_reports_seq := finder_reports_seq d + 1\<rparr>))"

definition insert_found_post :: "env \<Rightarrow> found_post \<Rightarrow> db \<Rightarrow> db option" where
  "insert_found_post env row d =
     (if insert_error env \<or> p_id row \<in> set (map p_id (found_posts d))
      then None
      else Some (d\<lparr>found_posts := found_posts d @ [row],
                    found_posts_seq := found_posts_seq d + 1\<rparr>))"

section \<open>Requests and responses\<close>

text \<open>
  A response: a redirect carrying the flash message set by \<open>setFlash(req, type, message)\<close>,
  or a status page. \<open>Status404\<close> is \<open>res.status(404).render("not_found")\<close>, \<open>Status403\<close>
  is \<open>res.status(403).send("Forbidden")\<close>.
\<close>

datatype response =
    Redirect string "(string \<times> string) option"
  | Status404
  | Status403
  | Render_found_qr item "user option"

definition flash_redirect :: "string \<Rightarrow> string \<Rightarrow> string \<Rightarrow> response" where
  "flash_redirect path type message = Redirect path (Some (type, message))"

text \<open>
  \<open>requireAuth\<close>: \<open>if (!req.session.userId) { setFlash(...); return res.redirect("/login"); }\<close>.
  The session's \<open>userId\<close> is absent or a string; the empty string is falsy as well.
\<close>

definition requireAuth :: "uuid option \<Rightarrow> uuid option" where
  "requireAuth userId = (case userId of None \<Rightarrow> None | Some u \<Rightarrow> if u = [] then None else Some u)"

definition login_redirect :: response where
  "login_redirect = flash_redirect ''/login'' ''error'' ''Please login first.''"

text \<open>The \<open>catch\<close> block of a handler: the flash "Something went wrong." and a redirect.\<close>

definition caught :: "string \<Rightarrow> response" where
  "caught path = flash_redirect path ''error'' ''Something went wrong.''"

text \<open>\<open>x || null\<close> on a string, and \<open>req.body.category || "Other"\<close> on a form field.\<close>

definition or_null :: "string \<Rightarrow> string option" where
  "or_null s = (if s = [] then None else Some s)"

definition or_default :: "form_value \<Rightarrow> string \<Rightarrow> form_value" where
  "or_default v d = (case v of
       Undefined \<Rightarrow> Str d
     | Str s \<Rightarrow> (if s = [] then Str d else Str s)
     | NonString \<Rightarrow> NonString)"

definition CATEGORIES :: "string list" where
  "CATEGORIES = [''Electronics'', ''ID / Cards'', ''Clothing'', ''Bags'', ''Bottles'', ''Books'',
     ''Accessories'', ''Keys'', ''Other'']"

text \<open>\<open>CATEGORIES.includes(category) ? category : "Other"\<close>; \<open>includes\<close> compares with
  \<open>===\<close>, so an array or object is never included.\<close>

definition category_or_other :: "form_value \<Rightarrow> string" where
  "category_or_other category = (case category of
       Str s \<Rightarrow> (if s \<in> set CATEGORIES then s else ''Other'')
     | _ \<Rightarrow> ''Other'')"

section \<open>The handlers (second revision of server.js)\<close>

subsection \<open>uploadImage\<close>

text \<open>
  The transcoder may throw (\<open>None\<close>); an upload error gives \<open>null\<close> (\<open>Some None\<close>);
  otherwise the public URL of the stored file. \<open>off\<close> is where \<open>generateToken\<close> reads
  the random source.
\<close>

definition uploadImage :: "env \<Rightarrow> byte list \<Rightarrow> string \<Rightarrow> nat \<Rightarrow> string option option" where
  "uploadImage env fileBuffer prefix off =
     (case sharp_compress env fileBuffer of
        None \<Rightarrow> None
      | Some compressed \<Rightarrow>
          (let fileName = prefix @ ''-'' @ generateToken (random env) off @ ''.jpg'' in
           if storage_upload_error env fileName compressed then Some None
           else Some (Some (storage_public_url env fileName))))"

subsection \<open>POST /dashboard: register a new item\<close>

definition post_dashboard ::
  "env \<Rightarrow> uuid option \<Rightarrow> (string \<Rightarrow> form_value) \<Rightarrow> byte list option \<Rightarrow> db \<Rightarrow> response \<times> db" where
  "post_dashboard env userId body file d =
     (case requireAuth userId of
        None \<Rightarrow> (login_redirect, d)
      | Some uid \<Rightarrow>
     (case sanitize (body ''item_name'') of
        None \<Rightarrow> (caught ''/dashboard'', d)
      | Some item_name \<Rightarrow>
     (case sanitize (body ''item_description'') of
        None \<Rightarrow> (caught ''/dashboard'', d)
      | Some item_description \<Rightarrow>
     (let category = or_default (body ''category'') ''Other'' in
      if item_name = [] \<or> length item_name > 150
      then (flash_redirect ''/dashboard'' ''error'' ''Item name is required (max 150 characters).'', d)
      else
       (let token = generateToken (random env) 0;
            qrUrl = BASE_URL env @ ''/found/'' @ token in
        case qr_toDataURL env qrUrl of
          None \<Rightarrow> (caught ''/dashboard'', d)
        | Some qr_data_url \<Rightarrow>
       (case (case file of None \<Rightarrow> Some None | Some buffer \<Rightarrow> uploadImage env buffer token 16) of
          None \<Rightarrow> (caught ''/dashboard'', d)
        | Some image_url \<Rightarrow>
       (case insert_item env
               \<lparr>i_id = gen_random_uuid env,
                i_user_id = uid,
                i_item_name = item_name,
                i_item_description = or_null item_description,
                i_category = category_or_other category,
                i_item_status = ''active'',
                i_image_url = image_url,
                i_token = token,
                i_qr_data_url = qr_data_url\<rparr> d of
          None \<Rightarrow> (flash_redirect ''/dashboard'' ''error'' ''Failed to register item.'', d)
        | Some d' \<Rightarrow>
            (flash_redirect ''/dashboard'' ''success'' ''Item registered and QR generated.'', d'))))))))"

subsection \<open>POST /lost/:id/sighting\<close>

definition quoted :: "string \<Rightarrow> string" where
  "quoted s = [CHR 0x22] @ s @ [CHR 0x22]"

definition post_lost_sighting ::
  "env \<Rightarrow> uuid \<Rightarrow> (string \<Rightarrow> form_value) \<Rightarrow> db \<Rightarrow> response \<times> db" where
  "post_lost_sighting env item_id body d =
     (case sanitize (body ''reporter_name'') of
        None \<Rightarrow> (caught ''/lost'', d)
      | Some reporter_name \<Rightarrow>
     (case sanitize (body ''reporter_email'') of
        None \<Rightarrow> (caught ''/lost'', d)
      | Some reporter_email \<Rightarrow>
     (case sanitize (body ''location'') of
        None \<Rightarrow> (caught ''/lost'', d)
      | Some location \<Rightarrow>
     (case sanitize (body ''message'') of
        None \<Rightarrow> (caught ''/lost'', d)
      | Some message \<Rightarrow>
     (case maybeSingle (filter (\<lambda>i. i_id i = item_id \<and> i_item_status i = ''lost'') (items d)) of
        None \<Rightarrow> (flash_redirect ''/lost'' ''error'' ''Item not found.'', d)
      | Some item \<Rightarrow>
          if length reporter_name < 2
          then (flash_redirect ''/lost'' ''error'' ''Name is too short.'', d)
          else if \<not> isValidEmail reporter_email
          then (flash_redirect ''/lost'' ''error'' ''Invalid email.'', d)
          else if length message < 3
          then (flash_redirect ''/lost'' ''error'' ''Message is too short.'', d)
          else
           (case insert_finder_report env
                   \<lparr>r_id = finder_reports_seq d,
                    r_item_id = i_id item,
                    r_finder_name = reporter_name,
                    r_finder_email = reporter_email,
                    r_location_hint = or_null location,
                    r_message = ''[Sighting] '' @ message,
                    r_status = ''open''\<rparr> d of
              None \<Rightarrow> (flash_redirect ''/lost'' ''error'' ''Failed to submit sighting.'', d)
            | Some d' \<Rightarrow>
                (flash_redirect ''/lost'' ''success''
                   (''Sighting reported for '' @ quoted (i_item_name item)
                      @ ''. The owner has been notified!''), d')))))))"

subsection \<open>GET /found/:token and POST /found/:token\<close>

text \<open>The lookup both handlers start with:
  \<open>supabase.from("items").select(...).eq("token", req.params.token).maybeSingle()\<close>.\<close>

definition resolveToken :: "db \<Rightarrow> string \<Rightarrow> item option" where
  "resolveToken d token = maybeSingle (filter (\<lambda>i. i_token i = token) (items d))"

definition get_found :: "string \<Rightarrow> db \<Rightarrow> response" where
  "get_found token d =
     (case resolveToken d token of
        None \<Rightarrow> Status404
      | Some item \<Rightarrow>
          Render_found_qr item (single (filter (\<lambda>u. u_id u = i_user_id item) (users d))))"

definition post_found ::
  "env \<Rightarrow> string \<Rightarrow> (string \<Rightarrow> form_value) \<Rightarrow> db \<Rightarrow> response \<times> db" where
  "post_found env token body d =
     (case sanitize (body ''finder_name'') of
        None \<Rightarrow> (caught (''/found/'' @ token), d)
      | Some finder_name \<Rightarrow>
     (case sanitize (body ''finder_email'') of
        None \<Rightarrow> (caught (''/found/'' @ token), d)
      | Some finder_email \<Rightarrow>
     (case sanitize (body ''location_hint'') of
        None \<Rightarrow> (caught (''/found/'' @ token), d)
      | Some location_hint \<Rightarrow>
     (case sanitize (body ''message'') of
        None \<Rightarrow> (caught (''/found/'' @ token), d)
      | Some message \<Rightarrow>
     (case resolveToken d token of
        None \<Rightarrow> (Status404, d)
      | Some item \<Rightarrow>
          if length finder_name < 2
          then (flash_redirect (''/found/'' @ token) ''error'' ''Name is too short.'', d)
          else if \<not> isValidEmail finder_email
          then (flash_redirect (''/found/'' @ token) ''error'' ''Invalid email.'', d)
          else if length message < 3
          then (flash_redirect (''/found/'' @ token) ''error'' ''Message is too short.'', d)
          else
           (case insert_finder_report env
                   \<lparr>r_id = finder_reports_seq d,
                    r_item_id = i_id item,
                    r_finder_name = finder_name,
                    r_finder_email = finder_email,
                    r_location_hint = or_null location_hint,
                    r_message = message,
                    r_status = ''open''\<rparr> d of
              None \<Rightarrow> (flash_redirect (''/found/'' @ token) ''error'' ''Failed to submit report.'', d)
            | Some d' \<Rightarrow>
                (flash_redirect (''/found/'' @ token) ''success'' ''Report submitted to owner!'', d')))))))"

subsection \<open>POST /found-items: post a found item to the board\<close>

definition post_found_items ::
  "env \<Rightarrow> (string \<Rightarrow> form_value) \<Rightarrow> byte list option \<Rightarrow> db \<Rightarrow> response \<times> db" where
  "post_found_items env body file d =
     (case sanitize (body ''finder_name'') of
        None \<Rightarrow> (caught ''/found-items'', d)
      | Some finder_name \<Rightarrow>
     (case sanitize (body ''finder_email'') of
        None \<Rightarrow> (caught ''/found-items'', d)
      | Some finder_email \<Rightarrow>
     (case sanitize (body ''item_name'') of
        None \<Rightarrow> (caught ''/found-items'', d)
      | Some item_name \<Rightarrow>
     (case sanitize (body ''item_description'') of
        None \<Rightarrow> (caught ''/found-items'', d)
      | Some item_description \<Rightarrow>
     (let category = or_default (body ''category'') ''Other'' in
      case sanitize (body ''location_found'') of
        None \<Rightarrow> (caught ''/found-items'', d)
      | Some location_found \<Rightarrow>
          if length finder_name < 2
          then (flash_redirect ''/found-items'' ''error'' ''Name is too short.'', d)
          else if \<not> isValidEmail finder_email
          then (flash_redirect ''/found-items'' ''error'' ''Invalid email.'', d)
          else if item_name = [] \<or> length item_name > 150
          then (flash_redirect ''/found-items'' ''error'' ''Item name is required (max 150 chars).'', d)
          else
           (case (case file of None \<Rightarrow> Some None | Some buffer \<Rightarrow> uploadImage env buffer ''found'' 0) of
              None \<Rightarrow> (caught ''/found-items'', d)
            | Some image_url \<Rightarrow>
           (case insert_found_post env
                   \<lparr>p_id = found_posts_seq d,
                    p_finder_name = finder_name,
                    p_finder_email = finder_email,
                    p_item_name = item_name,
                    p_item_description = or_null item_description,
                    p_category = category_or_other category,
                    p_location_found = or_null location_found,
                    p_image_url = image_url,
                    p_status = ''unclaimed''\<rparr> d of
              None \<Rightarrow> (flash_redirect ''/found-items'' ''error'' ''Failed to post item.'', d)
            | Some d' \<Rightarrow>
                (flash_redirect ''/found-items'' ''success''
                   ''Found item posted! The owner can now find it here.'', d'))))))))"

subsection \<open>POST /found-items/:id/claim\<close>

text \<open>
  \<open>Number(req.params.id)\<close> is an integer, or a value (NaN, a fraction, an infinity) that
  the \<open>bigint\<close> column rejects, so that the query returns no row.
\<close>

datatype js_number = Integer int | NotInteger

text \<open>
  The handler awaits two store operations: the select of the post with this id and
  status \<open>unclaimed\<close>, then the update of the row with the id read. \<open>claim_respond\<close> is
  the handler after its select has returned.
\<close>

definition claim_select :: "js_number \<Rightarrow> db \<Rightarrow> found_post option" where
  "claim_select n d =
     maybeSingle (filter (\<lambda>p. Integer (p_id p) = n \<and> p_status p = ''unclaimed'') (found_posts d))"

definition claim_update :: "found_post \<Rightarrow> db \<Rightarrow> db" where
  "claim_update post d =
     d\<lparr>found_posts :=
         map (\<lambda>p. if p_id p = p_id post then p\<lparr>p_status := ''claimed''\<rparr> else p) (found_posts d)\<rparr>"

definition claim_respond :: "found_post option \<Rightarrow> db \<Rightarrow> response \<times> db" where
  "claim_respond selected d =
     (case selected of
        None \<Rightarrow> (flash_redirect ''/found-items'' ''error'' ''Post not found or already claimed.'', d)
      | Some post \<Rightarrow>
          (flash_redirect ''/found-items'' ''success''
             (''You claimed '' @ quoted (p_item_name post) @ ''. Contact the finder at ''
                @ p_finder_email post @ '' to arrange pickup.''),
           claim_update post d))"

definition post_found_items_claim :: "uuid option \<Rightarrow> js_number \<Rightarrow> db \<Rightarrow> response \<times> db" where
  "post_found_items_claim userId n d =
     (case requireAuth userId of
        None \<Rightarrow> (login_redirect, d)
      | Some uid \<Rightarrow> claim_respond (claim_select n d) d)"

subsection \<open>POST /report/:id/resolve\<close>

definition resolve_update :: "finder_report \<Rightarrow> db \<Rightarrow> db" where
  "resolve_update report d =
     d\<lparr>finder_reports :=
         map (\<lambda>r. if r_id r = r_id report then r\<lparr>r_status := ''resolved''\<rparr> else r)
           (finder_reports d)\<rparr>"

definition post_report_resolve :: "uuid option \<Rightarrow> js_number \<Rightarrow> db \<Rightarrow> response \<times> db" where
  "post_report_resolve userId n d =
     (case requireAuth userId of
        None \<Rightarrow> (login_redirect, d)
      | Some uid \<Rightarrow>
     (case maybeSingle (filter (\<lambda>r. Integer (r_id r) = n) (finder_reports d)) of
        None \<Rightarrow> (Status404, d)
      | Some report \<Rightarrow>
     (case single (filter (\<lambda>i. i_id i = r_item_id report) (items d)) of
        None \<Rightarrow> (Status403, d)
      | Some item \<Rightarrow>
          if i_user_id item \<noteq> uid then (Status403, d)
          else (flash_redirect ''/dashboard'' ''success'' ''Report marked as resolved.'',
                resolve_update report d))))"

subsection \<open>POST /item/:id/status\<close>

definition allowed :: "string list" where
  "allowed = [''active'', ''lost'', ''recovered'']"

definition post_item_status ::
  "uuid option \<Rightarrow> uuid \<Rightarrow> (string \<Rightarrow> form_value) \<Rightarrow> db \<Rightarrow> response \<times> db" where
  "post_item_status userId item_id body d =
     (case requireAuth userId of
        None \<Rightarrow> (login_redirect, d)
      | Some uid \<Rightarrow>
     (case maybeSingle (filter (\<lambda>i. i_id i = item_id) (items d)) of
        None \<Rightarrow> (flash_redirect ''/dashboard'' ''error'' ''Item not found.'', d)
      | Some item \<Rightarrow>
          if i_user_id item \<noteq> uid
          then (flash_redirect ''/dashboard'' ''error'' ''Item not found.'', d)
          else
           (case body ''item_status'' of
              Str item_status \<Rightarrow>
                if item_status \<in> set allowed
                then (flash_redirect ''/dashboard'' ''success''
                        (''Item marked as '' @ item_status @ ''.''),
                      d\<lparr>items :=
                          map (\<lambda>i. if i_id i = i_id item then i\<lparr>i_item_status := item_status\<rparr> else i)
                            (items d)\<rparr>)
                else (flash_redirect ''/dashboard'' ''error'' ''Invalid status.'', d)
            | _ \<Rightarrow> (flash_redirect ''/dashboard'' ''error'' ''Invalid status.'', d))))"

subsection \<open>POST /item/:id/delete\<close>

definition post_item_delete :: "uuid option \<Rightarrow> uuid \<Rightarrow> db \<Rightarrow> response \<times> db" where
  "post_item_delete userId item_id d =
     (case requireAuth userId of
        None \<Rightarrow> (login_redirect, d)
      | Some uid \<Rightarrow>
     (case maybeSingle (filter (\<lambda>i. i_id i = item_id) (items d)) of
        None \<Rightarrow> (flash_redirect ''/dashboard'' ''error'' ''Item not found.'', d)
      | Some item \<Rightarrow>
          if i_user_id item \<noteq> uid
          then (flash_redirect ''/dashboard'' ''error'' ''Item not found.'', d)
          else (flash_redirect ''/dashboard'' ''success'' ''Item deleted.'',
                d\<lparr>finder_reports := filter (\<lambda>r. r_item_id r \<noteq> i_id item) (finder_reports d),
                   items := filter (\<lambda>i. i_id i \<noteq> i_id item) (items d)\<rparr>)))"

subsection \<open>Every request that writes to the three tables\<close>

datatype request =
    PostDashboard "uuid option" "string \<Rightarrow> form_value" "byte list option"
  | PostLostSighting uuid "string \<Rightarrow> form_value"
  | PostFound string "string \<Rightarrow> form_value"
  | PostFoundItems "string \<Rightarrow> form_value" "byte list option"
  | PostFoundItemsClaim "uuid option" js_number
  | PostReportResolve "uuid option" js_number
  | PostItemStatus "uuid option" uuid "string \<Rightarrow> form_value"
  | PostItemDelete "uuid option" uuid

fun handle :: "env \<Rightarrow> request \<Rightarrow> db \<Rightarrow> response \<times> db" where
  "handle env (PostDashboard userId body file) d = post_dashboard env userId body file d"
| "handle env (PostLostSighting item_id body) d = post_lost_sighting env item_id body d"
| "handle env (PostFound token body) d = post_found env token body d"
| "handle env (PostFoundItems body file) d = post_found_items env body file d"
| "handle env (PostFoundItemsClaim userId n) d = post_found_items_claim userId n d"
| "handle env (PostReportResolve userId n) d = post_report_resolve userId n d"
| "handle env (PostItemStatus userId item_id body) d = post_item_status userId item_id body d"
| "handle env (PostItemDelete userId item_id) d = post_item_delete userId item_id d"

text \<open>Requests handled one after the other, each with what it gets from outside.\<close>

fun handle_all :: "(env \<times> request) list \<Rightarrow> db \<Rightarrow> db" where
  "handle_all [] d = d"
| "handle_all ((env, rq) # rest) d = handle_all rest (snd (handle env rq d))"

subsection \<open>Two claim requests, and two resolve requests\<close>

text \<open>
  Two claims of the same post, the second request handled after the first has
  responded; and the same two requests when both selects return before either update
  runs (each request goes on with what its own select returned). The result is the two
  responses and the final store.
\<close>

definition claim_twice_in_turn ::
  "uuid option \<Rightarrow> uuid option \<Rightarrow> js_number \<Rightarrow> db \<Rightarrow> response \<times> response \<times> db" where
  "claim_twice_in_turn userA userB n d =
     (let (resA, d1) = post_found_items_claim userA n d;
          (resB, d2) = post_found_items_claim userB n d1
      in (resA, resB, d2))"

definition claim_twice_interleaved :: "js_number \<Rightarrow> db \<Rightarrow> response \<times> response \<times> db" where
  "claim_twice_interleaved n d =
     (let selectedA = claim_select n d;
          selectedB = claim_select n d;
          (resA, d1) = claim_respond selectedA d;
          (resB, d2) = claim_respond selectedB d1
      in (resA, resB, d2))"

definition resolve_twice_in_turn ::
  "uuid option \<Rightarrow> js_number \<Rightarrow> db \<Rightarrow> response \<times> response \<times> db" where
  "resolve_twice_in_turn userId n d =
     (let (resA, d1) = post_report_resolve userId n d;
          (resB, d2) = post_report_resolve userId n d1
      in (resA, resB, d2))"

section \<open>The constraints of the schema as a predicate on the store\<close>

text \<open>
  The primary keys, the \<open>unique\<close> constraint on \<open>items.token\<close>, and the two sequences
  being ahead of the ids they have given out.
\<close>

definition db_ok :: "db \<Rightarrow> bool" where
  "db_ok d =
     (distinct (map i_id (items d)) \<and> distinct (map i_token (items d))
      \<and> distinct (map r_id (finder_reports d)) \<and> distinct (map p_id (found_posts d))
      \<and> list_all (\<lambda>r. r_id r < finder_reports_seq d) (finder_reports d)
      \<and> list_all (\<lambda>p. p_id p < found_posts_seq d) (found_posts d))"

text \<open>The post with id \<open>k\<close> is in the table and its status is \<open>claimed\<close>.\<close>

definition claimed :: "int \<Rightarrow> db \<Rightarrow> bool" where
  "claimed k d =
     (list_ex (\<lambda>p. p_id p = k) (found_posts d)
      \<and> list_all (\<lambda>p. p_id p = k \<longrightarrow> p_status p = ''claimed'') (found_posts d))"

section \<open>A small store and its surroundings, for the examples\<close>

definition laptop :: item where
  "laptop = \<lparr>i_id = ''item-1'', i_user_id = ''user-A'', i_item_name = ''Laptop'',
     i_item_description = None, i_category = ''Electronics'', i_item_status = ''lost'',
     i_image_url = None, i_token = ''c0ffee'', i_qr_data_url = ''data:qr1''\<rparr>"

definition report1 :: finder_report where
  "report1 = \<lparr>r_id = 1, r_item_id = ''item-1'', r_finder_name = ''Bo'',
     r_finder_email = ''bo@x.com'', r_location_hint = None, r_message = ''saw it'',
     r_status = ''open''\<rparr>"

definition umbrella :: found_post where
  "umbrella = \<lparr>p_id = 1, p_finder_name = ''Cy'', p_finder_email = ''cy@x.com'',
     p_item_name = ''Umbrella'', p_item_description = None, p_category = ''Other'',
     p_location_found = None, p_image_url = None, p_status = ''unclaimed''\<rparr>"

definition db1 :: db where
  "db1 = \<lparr>users = [\<lparr>u_id = ''user-A'', u_full_name = ''Ann Lee'', u_email = ''ann@x.com''\<rparr>,
                    \<lparr>u_id = ''user-B'', u_full_name = ''Ben Ray'', u_email = ''ben@x.com''\<rparr>],
          items = [laptop], finder_reports = [report1], found_posts = [umbrella],
          finder_reports_seq = 2, found_posts_seq = 2\<rparr>"

definition env1 :: env where
  "env1 = \<lparr>BASE_URL = ''http://localhost:5000'',
           random = (\<lambda>i. 0),
           qr_toDataURL = (\<lambda>url. Some (''data:qr:'' @ url)),
           sharp_compress = (\<lambda>buffer. Some buffer),
           storage_upload_error = (\<lambda>fileName compressed. True),
           storage_public_url = (\<lambda>fileName. ''https://blobs/'' @ fileName),
           insert_error = False,
           gen_random_uuid = ''item-2''\<rparr>"

definition form :: "(string \<times> string) list \<Rightarrow> string \<Rightarrow> form_value" where
  "form pairs name = (case map_of pairs name of None \<Rightarrow> Undefined | Some v \<Rightarrow> Str v)"

text \<open>The example store after the umbrella has been claimed.\<close>

definition db2 :: db where
  "db2 = db1\<lparr>found_posts := [umbrella\<lparr>p_status := ''claimed''\<rparr>]\<rparr>"

section \<open>Facts about the helpers\<close>

lemma maybeSingle_Some_iff: "maybeSingle rows = Some r \<longleftrightarrow> rows = [r]"
  by (auto simp: maybeSingle_def split: list.splits)

lemma maybeSingle_Nil: "maybeSingle [] = None"
  by (simp add: maybeSingle_def)

lemma maybeSingle_in_set: "maybeSingle (filter P rows) = Some r \<Longrightarrow> r \<in> set rows \<and> P r"
proof -
  assume "maybeSingle (filter P rows) = Some r"
  then have "filter P rows = [r]" by (simp add: maybeSingle_Some_iff)
  then have "r \<in> set (filter P rows)" by simp
  then show ?thesis by simp
qed

lemma single_Some_iff: "single rows = Some r \<longleftrightarrow> rows = [r]"
  by (auto simp: single_def split: list.splits)

lemma filter_key_singleton:
  "distinct (map f xs) \<Longrightarrow> x \<in> set xs \<Longrightarrow> filter (\<lambda>y. f y = f x) xs = [x]"
proof (induction xs)
  case Nil
  then show ?case by simp
next
  case (Cons a xs)
  show ?case
  proof (cases "a = x")
    case True
    have "filter (\<lambda>y. f y = f x) xs = []"
      using Cons.prems(1) True by (auto simp: filter_empty_conv image_iff)
    with True show ?thesis by simp
  next
    case False
    with Cons.prems have "x \<in> set xs" by simp
    moreover from this Cons.prems(1) have "f a \<noteq> f x" by auto
    ultimately show ?thesis using Cons by simp
  qed
qed

lemma filter_none: "\<not> (\<exists>x\<in>set xs. P x) \<Longrightarrow> filter P xs = []"
  by (simp add: filter_empty_conv)

lemma length_trim_le: "length (trim s) \<le> length s"
proof -
  have "length (dropWhile is_space (rev (dropWhile is_space s))) \<le> length (rev (dropWhile is_space s))"
    by (rule length_dropWhile_le)
  also have "\<dots> \<le> length s"
    by (simp add: length_dropWhile_le)
  finally show ?thesis by (simp add: trim_def)
qed

lemma set_splits: "set (splits s) = {(u, v). u @ v = s}"
proof (induction s)
  case Nil
  then show ?case by auto
next
  case (Cons x xs)
  show ?case
  proof (rule set_eqI)
    fix p :: "'a list \<times> 'a list"
    obtain u v where p: "p = (u, v)" by (cases p)
    show "p \<in> set (splits (x # xs)) \<longleftrightarrow> p \<in> {(u, v). u @ v = x # xs}"
      unfolding p using Cons.IH by (cases u) (auto simp: image_iff)
  qed
qed

lemma matches_Cat: "matches (Cat r1 r2) s \<longleftrightarrow> (\<exists>u v. s = u @ v \<and> matches r1 u \<and> matches r2 v)"
  by (auto simp: list_ex_iff set_splits)

text \<open>The language of the e-mail pattern, written out.\<close>

lemma isValidEmail_iff:
  "isValidEmail s \<longleftrightarrow>
     (\<exists>a b c. s = a @ [CHR ''@''] @ b @ [CHR ''.''] @ c
        \<and> a \<noteq> [] \<and> b \<noteq> [] \<and> c \<noteq> []
        \<and> list_all not_space_at a \<and> list_all not_space_at b \<and> list_all not_space_at c)"
  (is "?L \<longleftrightarrow> ?R")
proof
  assume ?L
  then obtain a v1 where 1: "s = a @ v1" "matches (PlusClass not_space_at) a"
      and m1: "matches (Cat (Lit (CHR ''@'')) (Cat (PlusClass not_space_at)
                 (Cat (Lit (CHR ''.'')) (PlusClass not_space_at)))) v1"
    unfolding isValidEmail_def email_regex_def matches_Cat by blast
  from m1 obtain l v2 where 2: "v1 = l @ v2" "matches (Lit (CHR ''@'')) l"
      and m2: "matches (Cat (PlusClass not_space_at) (Cat (Lit (CHR ''.'')) (PlusClass not_space_at))) v2"
    unfolding matches_Cat by blast
  from m2 obtain b v3 where 3: "v2 = b @ v3" "matches (PlusClass not_space_at) b"
      and m3: "matches (Cat (Lit (CHR ''.'')) (PlusClass not_space_at)) v3"
    unfolding matches_Cat by blast
  from m3 obtain k c where 4: "v3 = k @ c" "matches (Lit (CHR ''.'')) k"
      "matches (PlusClass not_space_at) c"
    unfolding matches_Cat by blast
  have "s = a @ [CHR ''@''] @ b @ [CHR ''.''] @ c"
    using 1(1) 2 3(1) 4(1,2) by simp
  moreover have "a \<noteq> [] \<and> b \<noteq> [] \<and> c \<noteq> []"
    using 1(2) 3(2) 4(3) by simp
  moreover have "list_all not_space_at a \<and> list_all not_space_at b \<and> list_all not_space_at c"
    using 1(2) 3(2) 4(3) by simp
  ultimately show ?R by blast
next
  assume ?R
  then obtain a b c where s: "s = a @ [CHR ''@''] @ b @ [CHR ''.''] @ c"
      and ne: "a \<noteq> []" "b \<noteq> []" "c \<noteq> []"
      and cl: "list_all not_space_at a" "list_all not_space_at b" "list_all not_space_at c"
    by blast
  have "matches (Cat (Lit (CHR ''.'')) (PlusClass not_space_at)) ([CHR ''.''] @ c)"
    unfolding matches_Cat using ne cl by (intro exI[of _ "[CHR ''.'']"] exI[of _ c]) simp
  then have "matches (Cat (PlusClass not_space_at) (Cat (Lit (CHR ''.'')) (PlusClass not_space_at)))
               (b @ [CHR ''.''] @ c)"
    unfolding matches_Cat[of "PlusClass not_space_at"] using ne cl
    by (intro exI[of _ b] exI[of _ "[CHR ''.''] @ c"]) simp
  then have "matches (Cat (Lit (CHR ''@'')) (Cat (PlusClass not_space_at)
               (Cat (Lit (CHR ''.'')) (PlusClass not_space_at)))) ([CHR ''@''] @ b @ [CHR ''.''] @ c)"
    unfolding matches_Cat[of "Lit (CHR ''@'')"]
    by (intro exI[of _ "[CHR ''@'']"] exI[of _ "b @ [CHR ''.''] @ c"]) simp
  then show ?L
    unfolding isValidEmail_def email_regex_def s matches_Cat[of "PlusClass not_space_at" "Cat (Lit (CHR ''@'')) _"]
    using ne cl by (intro exI[of _ a] exI[of _ "[CHR ''@''] @ b @ [CHR ''.''] @ c"]) simp
qed

lemma isValidEmail_at:
  assumes "isValidEmail s"
  shows "CHR ''@'' \<in> set s"
proof -
  from assms obtain a b c where "s = a @ [CHR ''@''] @ b @ [CHR ''.''] @ c"
    unfolding isValidEmail_iff by blast
  then show ?thesis by simp
qed

lemma isValidEmail_domain:
  assumes "isValidEmail s"
  shows "CHR ''.'' \<in> set (dropWhile (\<lambda>c. c \<noteq> CHR ''@'') s)"
proof -
  from assms obtain a b c where s: "s = a @ [CHR ''@''] @ b @ [CHR ''.''] @ c"
    and a: "list_all not_space_at a"
    unfolding isValidEmail_iff by blast
  from a have "\<forall>x\<in>set a. x \<noteq> CHR ''@''" by (auto simp: list_all_iff not_space_at_def)
  then have "dropWhile (\<lambda>c. c \<noteq> CHR ''@'') s = [CHR ''@''] @ b @ [CHR ''.''] @ c"
    unfolding s by (simp add: dropWhile_append)
  then show ?thesis by simp
qed

section \<open>Token resolution\<close>

lemma resolveToken_unbound:
  "\<not> (\<exists>i\<in>set (items d). i_token i = t) \<Longrightarrow> resolveToken d t = None"
  by (simp add: resolveToken_def filter_none maybeSingle_Nil)

lemma resolveToken_Some:
  "resolveToken d t = Some i \<Longrightarrow> i \<in> set (items d) \<and> i_token i = t"
  unfolding resolveToken_def by (rule maybeSingle_in_set)

lemma resolveToken_bound:
  assumes "distinct (map i_token (items d))" and "i \<in> set (items d)"
  shows "resolveToken d (i_token i) = Some i"
  using filter_key_singleton [OF assms]
  by (simp add: resolveToken_def maybeSingle_Some_iff)

text \<open>
  C8. A token that no item carries resolves to nothing: the lookup returns no item,
  \<open>GET /found/:token\<close> answers 404, and so does \<open>POST /found/:token\<close> on a body of
  string fields, leaving the store as it was. The item a token resolves to carries
  exactly that token, so two different tokens never resolve to the same item.
\<close>

theorem C8_resolve_token_exact:
  "(\<not> (\<exists>i\<in>set (items d). i_token i = t) \<longrightarrow>
        resolveToken d t = None \<and> get_found t d = Status404
      \<and> (\<forall>body. (\<forall>f. body f \<noteq> NonString) \<longrightarrow> post_found env t body d = (Status404, d)))
   \<and> (\<forall>i. resolveToken d t = Some i \<longrightarrow> i \<in> set (items d) \<and> i_token i = t)
   \<and> (\<forall>i t'. resolveToken d t = Some i \<and> resolveToken d t' = Some i \<longrightarrow> t' = t)"
proof (intro conjI impI allI)
  assume u: "\<not> (\<exists>i\<in>set (items d). i_token i = t)"
  then show n: "resolveToken d t = None" by (rule resolveToken_unbound)
  then show "get_found t d = Status404" by (simp add: get_found_def)
  fix body :: "string \<Rightarrow> form_value"
  assume s: "\<forall>f. body f \<noteq> NonString"
  have "\<exists>v. sanitize (body f) = Some v" for f
    using s by (cases "body f") (auto simp: sanitize_def)
  then obtain a b c e where "sanitize (body ''finder_name'') = Some a"
    "sanitize (body ''finder_email'') = Some b" "sanitize (body ''location_hint'') = Some c"
    "sanitize (body ''message'') = Some e" by metis
  then show "post_found env t body d = (Status404, d)"
    using n by (simp add: post_found_def)
next
  fix i assume "resolveToken d t = Some i"
  then show "i \<in> set (items d)" "i_token i = t" using resolveToken_Some by blast+
next
  fix i t' assume "resolveToken d t = Some i \<and> resolveToken d t' = Some i"
  then show "t' = t" using resolveToken_Some by blast
qed

text \<open>On the example store: the prefix \<open>c0ff\<close> of the laptop's token \<open>c0ffee\<close> is no token.\<close>

theorem C8_resolve_token_exact_witness:
  "resolveToken db1 ''c0ff'' = None \<and> get_found ''c0ff'' db1 = Status404
   \<and> post_found env1 ''c0ff'' (form [(''finder_name'', ''Bo'')]) db1 = (Status404, db1)
   \<and> resolveToken db1 ''c0ffee'' = Some laptop \<and> i_token laptop = ''c0ffee''"
proof -
  have u: "\<not> (\<exists>i\<in>set (items db1). i_token i = ''c0ff'')"
    by (simp add: db1_def laptop_def)
  have f: "\<forall>f. form [(''finder_name'', ''Bo'')] f \<noteq> NonString"
    by (simp add: form_def split: option.splits)
  have r: "resolveToken db1 ''c0ffee'' = Some laptop"
    by (simp add: resolveToken_def db1_def laptop_def maybeSingle_def)
  show ?thesis
    using C8_resolve_token_exact [of db1 "''c0ff''" env1]
      C8_resolve_token_exact [of db1 "''c0ffee''" env1] u f r by blast
qed

section \<open>Lookups by key\<close>

lemma requireAuth_Some: "requireAuth userId = Some uid \<longleftrightarrow> userId = Some uid \<and> uid \<noteq> []"
  by (auto simp: requireAuth_def split: option.splits)

lemma select_by_r_id:
  assumes "distinct (map r_id (finder_reports d))" "report \<in> set (finder_reports d)"
  shows "maybeSingle (filter (\<lambda>r. Integer (r_id r) = Integer (r_id report)) (finder_reports d)) = Some report"
  using filter_key_singleton [OF assms] by (simp add: maybeSingle_Some_iff)

lemma select_by_i_id:
  assumes "distinct (map i_id (items d))" "item \<in> set (items d)"
  shows "filter (\<lambda>i. i_id i = i_id item) (items d) = [item]"
  using filter_key_singleton [OF assms] .

lemma db_ok_db1: "db_ok db1"
  by (simp add: db_ok_def db1_def laptop_def report1_def umbrella_def)

section \<open>Resolving a finder report\<close>

text \<open>
  C1. \<open>POST /report/:id/resolve\<close> by a logged-in user \<open>uid\<close>. With no report of this
  id the answer is 404 (NotFound) and the store is as before. For a report of this id,
  on a store that meets the schema's constraints: when the table has no item with the
  report's \<open>item_id\<close> that \<open>uid\<close> owns, the answer is 403 (AuthorizationError) and the
  store is as before; when \<open>uid\<close> owns the report's item, the answer is the success
  redirect and the rows with the report's id, and only they, have their status set to
  \<open>resolved\<close>. On any store: when the user owns the parent item of no report of this id,
  the store is as before, whatever the answer.
\<close>

theorem C1_resolve_report:
  assumes "requireAuth userId = Some uid"
  shows
   "(\<not> (\<exists>r\<in>set (finder_reports d). Integer (r_id r) = n) \<longrightarrow>
        post_report_resolve userId n d = (Status404, d))
    \<and> (\<forall>report.
          db_ok d \<and> report \<in> set (finder_reports d) \<and> Integer (r_id report) = n \<longrightarrow>
          (\<not> (\<exists>i\<in>set (items d). i_id i = r_item_id report \<and> i_user_id i = uid) \<longrightarrow>
             post_report_resolve userId n d = (Status403, d))
        \<and> ((\<exists>i\<in>set (items d). i_id i = r_item_id report \<and> i_user_id i = uid) \<longrightarrow>
              post_report_resolve userId n d =
                (flash_redirect ''/dashboard'' ''success'' ''Report marked as resolved.'',
                 d\<lparr>finder_reports :=
                     map (\<lambda>r. if r_id r = r_id report then r\<lparr>r_status := ''resolved''\<rparr> else r)
                       (finder_reports d)\<rparr>)))
    \<and> ((\<forall>r\<in>set (finder_reports d). Integer (r_id r) = n \<longrightarrow>
           \<not> (\<exists>i\<in>set (items d). i_id i = r_item_id r \<and> i_user_id i = uid)) \<longrightarrow>
        snd (post_report_resolve userId n d) = d)"
proof (intro conjI impI allI)
  assume "\<not> (\<exists>r\<in>set (finder_reports d). Integer (r_id r) = n)"
  then have "filter (\<lambda>r. Integer (r_id r) = n) (finder_reports d) = []"
    by (simp add: filter_empty_conv)
  then show "post_report_resolve userId n d = (Status404, d)"
    using assms by (simp add: post_report_resolve_def maybeSingle_Nil)
next
  fix report
  assume a: "db_ok d \<and> report \<in> set (finder_reports d) \<and> Integer (r_id report) = n"
  then have sel: "maybeSingle (filter (\<lambda>r. Integer (r_id r) = n) (finder_reports d)) = Some report"
    using select_by_r_id [of d report] by (auto simp: db_ok_def)
  {
    assume no: "\<not> (\<exists>i\<in>set (items d). i_id i = r_item_id report \<and> i_user_id i = uid)"
    show "post_report_resolve userId n d = (Status403, d)"
    proof (cases "single (filter (\<lambda>i. i_id i = r_item_id report) (items d))")
      case None
      then show ?thesis using assms sel by (simp add: post_report_resolve_def)
    next
      case (Some item)
      then have "filter (\<lambda>i. i_id i = r_item_id report) (items d) = [item]"
        by (simp add: single_Some_iff)
      then have "item \<in> set (filter (\<lambda>i. i_id i = r_item_id report) (items d))" by simp
      then have "item \<in> set (items d) \<and> i_id item = r_item_id report" by simp
      with no have "i_user_id item \<noteq> uid" by blast
      then show ?thesis using assms sel Some by (simp add: post_report_resolve_def)
    qed
  }
  {
    assume "\<exists>i\<in>set (items d). i_id i = r_item_id report \<and> i_user_id i = uid"
    then obtain item where i: "item \<in> set (items d)" "i_id item = r_item_id report"
      "i_user_id item = uid" by blast
    with a have "single (filter (\<lambda>i. i_id i = r_item_id report) (items d)) = Some item"
      using select_by_i_id [of d item] by (auto simp: db_ok_def single_Some_iff)
    then show "post_report_resolve userId n d =
                (flash_redirect ''/dashboard'' ''success'' ''Report marked as resolved.'',
                 d\<lparr>finder_reports :=
                     map (\<lambda>r. if r_id r = r_id report then r\<lparr>r_status := ''resolved''\<rparr> else r)
                       (finder_reports d)\<rparr>)"
      using assms sel i(3) by (simp add: post_report_resolve_def resolve_update_def)
  }
next
  assume no: "\<forall>r\<in>set (finder_reports d). Integer (r_id r) = n \<longrightarrow>
           \<not> (\<exists>i\<in>set (items d). i_id i = r_item_id r \<and> i_user_id i = uid)"
  show "snd (post_report_resolve userId n d) = d"
  proof (cases "maybeSingle (filter (\<lambda>r. Integer (r_id r) = n) (finder_reports d))")
    case None
    then show ?thesis using assms by (simp add: post_report_resolve_def)
  next
    case (Some report)
    then have r: "report \<in> set (finder_reports d) \<and> Integer (r_id report) = n"
      by (rule maybeSingle_in_set)
    show ?thesis
    proof (cases "single (filter (\<lambda>i. i_id i = r_item_id report) (items d))")
      case None
      then show ?thesis using assms Some by (simp add: post_report_resolve_def)
    next
      case (Some item)
      then have "filter (\<lambda>i. i_id i = r_item_id report) (items d) = [item]"
        by (simp add: single_Some_iff)
      then have "item \<in> set (filter (\<lambda>i. i_id i = r_item_id report) (items d))" by simp
      then have "item \<in> set (items d) \<and> i_id item = r_item_id report" by simp
      with no r have "i_user_id item \<noteq> uid" by blast
      then show ?thesis
        using assms Some \<open>maybeSingle _ = Some report\<close> by (simp add: post_report_resolve_def)
    qed
  qed
qed

text \<open>On the example store: the owner A, the other user B, and an id with no report.\<close>

theorem C1_resolve_report_witness:
  "post_report_resolve (Some ''user-A'') (Integer 1) db1 =
     (flash_redirect ''/dashboard'' ''success'' ''Report marked as resolved.'',
      db1\<lparr>finder_reports := [report1\<lparr>r_status := ''resolved''\<rparr>]\<rparr>)
   \<and> post_report_resolve (Some ''user-B'') (Integer 1) db1 = (Status403, db1)
   \<and> snd (post_report_resolve (Some ''user-B'') (Integer 1) db1) = db1
   \<and> post_report_resolve (Some ''user-B'') (Integer 7) db1 = (Status404, db1)"
proof -
  have a: "requireAuth (Some ''user-A'') = Some ''user-A''"
    and b: "requireAuth (Some ''user-B'') = Some ''user-B''"
    by (simp_all add: requireAuth_def)
  have r: "db_ok db1 \<and> report1 \<in> set (finder_reports db1) \<and> Integer (r_id report1) = Integer 1"
    using db_ok_db1 by (simp add: db1_def report1_def)
  have ownA: "\<exists>i\<in>set (items db1). i_id i = r_item_id report1 \<and> i_user_id i = ''user-A''"
    and notB: "\<not> (\<exists>i\<in>set (items db1). i_id i = r_item_id report1 \<and> i_user_id i = ''user-B'')"
    by (simp_all add: db1_def report1_def laptop_def)
  have none7: "\<not> (\<exists>r\<in>set (finder_reports db1). Integer (r_id r) = Integer 7)"
    by (simp add: db1_def report1_def)
  have noB: "\<forall>r\<in>set (finder_reports db1). Integer (r_id r) = Integer 1 \<longrightarrow>
           \<not> (\<exists>i\<in>set (items db1). i_id i = r_item_id r \<and> i_user_id i = ''user-B'')"
    by (simp add: db1_def report1_def laptop_def)
  have m: "map (\<lambda>r. if r_id r = r_id report1 then r\<lparr>r_status := ''resolved''\<rparr> else r)
             (finder_reports db1) = [report1\<lparr>r_status := ''resolved''\<rparr>]"
    by (simp add: db1_def)
  note A = C1_resolve_report [OF a, of db1 "Integer 1", THEN conjunct2, THEN conjunct1,
      rule_format, OF r]
  note B = C1_resolve_report [OF b, of db1 "Integer 1", THEN conjunct2, THEN conjunct1,
      rule_format, OF r]
  have 1: "post_report_resolve (Some ''user-A'') (Integer 1) db1 =
     (flash_redirect ''/dashboard'' ''success'' ''Report marked as resolved.'',
      db1\<lparr>finder_reports := [report1\<lparr>r_status := ''resolved''\<rparr>]\<rparr>)"
    using A [THEN conjunct2, rule_format, OF ownA] unfolding m .
  have 2: "post_report_resolve (Some ''user-B'') (Integer 1) db1 = (Status403, db1)"
    using B [THEN conjunct1, rule_format, OF notB] .
  have 3: "snd (post_report_resolve (Some ''user-B'') (Integer 1) db1) = db1"
    using C1_resolve_report [OF b, of db1 "Integer 1", THEN conjunct2, THEN conjunct2] noB
    by blast
  have 4: "post_report_resolve (Some ''user-B'') (Integer 7) db1 = (Status404, db1)"
    using C1_resolve_report [OF b, of db1 "Integer 7", THEN conjunct1, rule_format, OF none7] .
  from 1 2 3 4 show ?thesis by blast
qed

section \<open>Changing an item's status\<close>

text \<open>
  C2. \<open>POST /item/:id/status\<close> by a logged-in user \<open>uid\<close> on an item of the table (the
  store meeting the schema's constraints). A user other than the owner is refused and
  nothing changes; the handler reports the missing right by a redirect with the error
  flash "Item not found.", the same it gives for an item that does not exist. For the owner, a value of
  \<open>item_status\<close> that is not one of \<open>active\<close>, \<open>lost\<close>, \<open>recovered\<close> (or is no string at
  all) is refused as invalid and nothing changes; one of the three is written to the
  item's row, whatever status the row had before.
\<close>

theorem C2_set_status:
  assumes "requireAuth userId = Some uid"
    and "db_ok d" and "item \<in> set (items d)" and "i_id item = item_id"
  shows
   "(i_user_id item \<noteq> uid \<longrightarrow>
        post_item_status userId item_id body d =
          (flash_redirect ''/dashboard'' ''error'' ''Item not found.'', d))
    \<and> (i_user_id item = uid \<and> \<not> (\<exists>s. body ''item_status'' = Str s \<and> s \<in> {''active'', ''lost'', ''recovered''}) \<longrightarrow>
        post_item_status userId item_id body d =
          (flash_redirect ''/dashboard'' ''error'' ''Invalid status.'', d))
    \<and> (\<forall>s. i_user_id item = uid \<and> body ''item_status'' = Str s \<and> s \<in> {''active'', ''lost'', ''recovered''} \<longrightarrow>
        post_item_status userId item_id body d =
          (flash_redirect ''/dashboard'' ''success'' (''Item marked as '' @ s @ ''.''),
           d\<lparr>items := map (\<lambda>i. if i_id i = item_id then i\<lparr>i_item_status := s\<rparr> else i) (items d)\<rparr>)
        \<and> item\<lparr>i_item_status := s\<rparr> \<in> set (items (snd (post_item_status userId item_id body d))))"
proof -
  have sel: "maybeSingle (filter (\<lambda>i. i_id i = item_id) (items d)) = Some item"
    using select_by_i_id [of d item] assms(2,3,4) by (auto simp: db_ok_def maybeSingle_Some_iff)
  show ?thesis
  proof (intro conjI impI allI)
    assume "i_user_id item \<noteq> uid"
    then show "post_item_status userId item_id body d =
          (flash_redirect ''/dashboard'' ''error'' ''Item not found.'', d)"
      using assms(1) sel by (simp add: post_item_status_def)
  next
    assume "i_user_id item = uid \<and> \<not> (\<exists>s. body ''item_status'' = Str s \<and> s \<in> {''active'', ''lost'', ''recovered''})"
    then show "post_item_status userId item_id body d =
          (flash_redirect ''/dashboard'' ''error'' ''Invalid status.'', d)"
      using assms(1) sel
      by (cases "body ''item_status''") (simp_all add: post_item_status_def allowed_def)
  next
    fix s
    assume a: "i_user_id item = uid \<and> body ''item_status'' = Str s \<and> s \<in> {''active'', ''lost'', ''recovered''}"
    then have "s \<in> set allowed" by (simp add: allowed_def)
    with a show eq: "post_item_status userId item_id body d =
          (flash_redirect ''/dashboard'' ''success'' (''Item marked as '' @ s @ ''.''),
           d\<lparr>items := map (\<lambda>i. if i_id i = item_id then i\<lparr>i_item_status := s\<rparr> else i) (items d)\<rparr>)"
      using assms(1,4) sel by (simp add: post_item_status_def)
    have "item\<lparr>i_item_status := s\<rparr> \<in> (\<lambda>i. if i_id i = item_id then i\<lparr>i_item_status := s\<rparr> else i) ` set (items d)"
      using assms(3,4) by (intro image_eqI [of _ _ item]) simp_all
    then show "item\<lparr>i_item_status := s\<rparr> \<in> set (items (snd (post_item_status userId item_id body d)))"
      unfolding eq by simp
  qed
qed

text \<open>On the example store, whose laptop is \<open>lost\<close>: B is refused, \<open>banana\<close> is refused,
  and A sets the status back to \<open>active\<close>.\<close>

theorem C2_set_status_witness:
  "post_item_status (Some ''user-B'') ''item-1'' (form [(''item_status'', ''recovered'')]) db1 =
     (flash_redirect ''/dashboard'' ''error'' ''Item not found.'', db1)
   \<and> post_item_status (Some ''user-A'') ''item-1'' (form [(''item_status'', ''banana'')]) db1 =
     (flash_redirect ''/dashboard'' ''error'' ''Invalid status.'', db1)
   \<and> post_item_status (Some ''user-A'') ''item-1'' (form [(''item_status'', ''active'')]) db1 =
     (flash_redirect ''/dashboard'' ''success'' ''Item marked as active.'',
      db1\<lparr>items := [laptop\<lparr>i_item_status := ''active''\<rparr>]\<rparr>)"
proof -
  have a: "requireAuth (Some ''user-A'') = Some ''user-A''"
    and b: "requireAuth (Some ''user-B'') = Some ''user-B''"
    by (simp_all add: requireAuth_def)
  have i: "laptop \<in> set (items db1)" "i_id laptop = ''item-1''"
    and o: "i_user_id laptop = ''user-A''" "i_user_id laptop \<noteq> ''user-B''"
    by (simp_all add: db1_def laptop_def)
  have bad: "\<not> (\<exists>s. form [(''item_status'', ''banana'')] ''item_status'' = Str s
                 \<and> s \<in> {''active'', ''lost'', ''recovered''})"
    by (simp add: form_def)
  have good: "form [(''item_status'', ''active'')] ''item_status'' = Str ''active''"
    "''active'' \<in> {''active'', ''lost'', ''recovered''}"
    by (simp_all add: form_def)
  have m: "map (\<lambda>i. if i_id i = ''item-1'' then i\<lparr>i_item_status := ''active''\<rparr> else i) (items db1)
            = [laptop\<lparr>i_item_status := ''active''\<rparr>]"
    by (simp add: db1_def laptop_def)
  from C2_set_status [OF b db_ok_db1 i, of "form [(''item_status'', ''recovered'')]"] o(2)
  have 1: "post_item_status (Some ''user-B'') ''item-1'' (form [(''item_status'', ''recovered'')]) db1 =
     (flash_redirect ''/dashboard'' ''error'' ''Item not found.'', db1)" by blast
  from C2_set_status [OF a db_ok_db1 i, of "form [(''item_status'', ''banana'')]"] o(1) bad
  have 2: "post_item_status (Some ''user-A'') ''item-1'' (form [(''item_status'', ''banana'')]) db1 =
     (flash_redirect ''/dashboard'' ''error'' ''Invalid status.'', db1)" by blast
  from C2_set_status [OF a db_ok_db1 i, of "form [(''item_status'', ''active'')]"] o(1) good
  have 3: "post_item_status (Some ''user-A'') ''item-1'' (form [(''item_status'', ''active'')]) db1 =
     (flash_redirect ''/dashboard'' ''success'' (''Item marked as '' @ ''active'' @ ''.''),
      db1\<lparr>items := map (\<lambda>i. if i_id i = ''item-1'' then i\<lparr>i_item_status := ''active''\<rparr> else i) (items db1)\<rparr>)"
    by blast
  from 1 2 3 show ?thesis unfolding m by simp
qed

section \<open>Claiming a found post\<close>

text \<open>The handlers that write to other tables leave \<open>found_posts\<close> alone.\<close>

lemma found_posts_post_dashboard:
  "found_posts (snd (post_dashboard env userId body file d)) = found_posts d"
  by (auto simp: post_dashboard_def insert_item_def Let_def split: option.splits if_splits)

lemma found_posts_post_lost_sighting:
  "found_posts (snd (post_lost_sighting env item_id body d)) = found_posts d"
  by (auto simp: post_lost_sighting_def insert_finder_report_def split: option.splits if_splits)

lemma found_posts_post_found:
  "found_posts (snd (post_found env token body d)) = found_posts d"
  by (auto simp: post_found_def insert_finder_report_def split: option.splits if_splits)

lemma found_posts_post_report_resolve:
  "found_posts (snd (post_report_resolve userId n d)) = found_posts d"
  by (auto simp: post_report_resolve_def resolve_update_def split: option.splits if_splits)

lemma found_posts_post_item_status:
  "found_posts (snd (post_item_status userId item_id body d)) = found_posts d"
  by (auto simp: post_item_status_def split: option.splits if_splits form_value.splits)

lemma found_posts_post_item_delete:
  "found_posts (snd (post_item_delete userId item_id d)) = found_posts d"
  by (auto simp: post_item_delete_def split: option.splits if_splits)


lemma list_ex_map_claim:
  "list_ex (\<lambda>p. p_id p = k) (map (\<lambda>p. if p_id p = j then p\<lparr>p_status := ''claimed''\<rparr> else p) ps)
     = list_ex (\<lambda>p. p_id p = k) ps"
  by (induction ps) auto

lemma list_all_map_claim:
  "list_all (\<lambda>p. p_id p = k \<longrightarrow> p_status p = ''claimed'') ps \<Longrightarrow>
   list_all (\<lambda>p. p_id p = k \<longrightarrow> p_status p = ''claimed'')
     (map (\<lambda>p. if p_id p = j then p\<lparr>p_status := ''claimed''\<rparr> else p) ps)"
  by (induction ps) auto

lemma list_all_map_claim_same:
  "list_all (\<lambda>p. p_id p = j \<longrightarrow> p_status p = ''claimed'')
     (map (\<lambda>p. if p_id p = j then p\<lparr>p_status := ''claimed''\<rparr> else p) ps)"
  by (induction ps) auto

lemma claimed_claim_update: "claimed k d \<Longrightarrow> claimed k (claim_update post d)"
  by (simp add: claimed_def claim_update_def list_ex_map_claim list_all_map_claim)

lemma claimed_insert_found_post:
  "insert_found_post env row d = Some d' \<Longrightarrow> claimed k d \<Longrightarrow> claimed k d'"
  by (auto simp: claimed_def insert_found_post_def list_ex_iff list_all_iff split: if_splits)

lemma claimed_post_found_items:
  "claimed k d \<Longrightarrow> claimed k (snd (post_found_items env body file d))"
  by (auto simp: post_found_items_def Let_def split: option.splits if_splits
           dest: claimed_insert_found_post)

lemma claimed_post_found_items_claim:
  "claimed k d \<Longrightarrow> claimed k (snd (post_found_items_claim userId n d))"
  by (auto simp: post_found_items_claim_def claim_respond_def claimed_claim_update
           split: option.splits)

lemma claimed_found_posts_eq: "found_posts d' = found_posts d \<Longrightarrow> claimed k d \<Longrightarrow> claimed k d'"
  by (simp add: claimed_def)

lemma claimed_handle: "claimed k d \<Longrightarrow> claimed k (snd (handle env rq d))"
proof (cases rq)
  case (PostFoundItems body img)
  then show "claimed k d \<Longrightarrow> ?thesis" by (simp add: claimed_post_found_items)
next
  case (PostFoundItemsClaim userId n)
  then show "claimed k d \<Longrightarrow> ?thesis" by (simp add: claimed_post_found_items_claim)
qed (simp_all add: claimed_found_posts_eq found_posts_post_dashboard found_posts_post_lost_sighting
       found_posts_post_found found_posts_post_report_resolve found_posts_post_item_status
       found_posts_post_item_delete)

lemma claimed_handle_all: "claimed k d \<Longrightarrow> claimed k (handle_all rqs d)"
proof (induction rqs arbitrary: d)
  case Nil
  then show ?case by simp
next
  case (Cons a rqs)
  obtain env rq where a: "a = (env, rq)" by (cases a)
  from Cons.prems have "claimed k (snd (handle env rq d))" by (rule claimed_handle)
  then show ?case unfolding a by (simp add: Cons.IH)
qed

lemma select_unclaimed:
  assumes "distinct (map p_id (found_posts d))" "post \<in> set (found_posts d)"
    "p_status post = ''unclaimed''"
  shows "claim_select (Integer (p_id post)) d = Some post"
proof -
  have "filter (\<lambda>p. p_id p = p_id post) (found_posts d) = [post]"
    using filter_key_singleton [OF assms(1,2)] .
  moreover have "filter (\<lambda>p. Integer (p_id p) = Integer (p_id post) \<and> p_status p = ''unclaimed'') (found_posts d)
    = filter (\<lambda>p. p_status p = ''unclaimed'') (filter (\<lambda>p. p_id p = p_id post) (found_posts d))"
    by (simp add: conj_commute)
  ultimately show ?thesis using assms(3) by (simp add: claim_select_def maybeSingle_def)
qed

lemma claimed_after_update:
  assumes "post \<in> set (found_posts d)"
  shows "claimed (p_id post) (claim_update post d)"
proof -
  from assms have "list_ex (\<lambda>p. p_id p = p_id post) (found_posts d)"
    by (auto simp: list_ex_iff)
  then show ?thesis
    by (simp add: claimed_def claim_update_def list_ex_map_claim list_all_map_claim_same)
qed

text \<open>
  C6. \<open>POST /found-items/:id/claim\<close> by a logged-in user, whoever it is. When the table
  has no post of this id with status \<open>unclaimed\<close> (there is no such post, or it is
  claimed already) the request is refused with the flash "Post not found or already
  claimed." and the store is as before. Otherwise, on a store that meets the schema's
  constraints, the post's row gets the status \<open>claimed\<close> and the request succeeds.
  Whatever requests are handled after that, one after the other, a post that is claimed
  stays in the table and stays claimed.
\<close>

theorem C6_claim_found_post:
  assumes "requireAuth userId = Some uid"
  shows
   "(\<not> (\<exists>p\<in>set (found_posts d). Integer (p_id p) = n \<and> p_status p = ''unclaimed'') \<longrightarrow>
        post_found_items_claim userId n d =
          (flash_redirect ''/found-items'' ''error'' ''Post not found or already claimed.'', d))
    \<and> (\<forall>post. db_ok d \<and> post \<in> set (found_posts d) \<and> Integer (p_id post) = n
             \<and> p_status post = ''unclaimed'' \<longrightarrow>
          post_found_items_claim userId n d =
            (flash_redirect ''/found-items'' ''success''
               (''You claimed '' @ quoted (p_item_name post) @ ''. Contact the finder at ''
                  @ p_finder_email post @ '' to arrange pickup.''),
             d\<lparr>found_posts :=
                 map (\<lambda>p. if p_id p = p_id post then p\<lparr>p_status := ''claimed''\<rparr> else p)
                   (found_posts d)\<rparr>)
          \<and> claimed (p_id post) (snd (post_found_items_claim userId n d)))
    \<and> (\<forall>k rqs. claimed k d \<longrightarrow> claimed k (handle_all rqs d))"
proof (intro conjI impI allI)
  assume "\<not> (\<exists>p\<in>set (found_posts d). Integer (p_id p) = n \<and> p_status p = ''unclaimed'')"
  then have "claim_select n d = None"
    by (simp add: claim_select_def filter_empty_conv maybeSingle_Nil)
  then show "post_found_items_claim userId n d =
          (flash_redirect ''/found-items'' ''error'' ''Post not found or already claimed.'', d)"
    using assms by (simp add: post_found_items_claim_def claim_respond_def)
next
  fix post
  assume a: "db_ok d \<and> post \<in> set (found_posts d) \<and> Integer (p_id post) = n
             \<and> p_status post = ''unclaimed''"
  then have sel: "claim_select n d = Some post"
    using select_unclaimed [of d post] by (auto simp: db_ok_def)
  then show eq: "post_found_items_claim userId n d =
            (flash_redirect ''/found-items'' ''success''
               (''You claimed '' @ quoted (p_item_name post) @ ''. Contact the finder at ''
                  @ p_finder_email post @ '' to arrange pickup.''),
             d\<lparr>found_posts :=
                 map (\<lambda>p. if p_id p = p_id post then p\<lparr>p_status := ''claimed''\<rparr> else p)
                   (found_posts d)\<rparr>)"
    using assms by (simp add: post_found_items_claim_def claim_respond_def claim_update_def)
  from a have "claimed (p_id post) (claim_update post d)" by (simp add: claimed_after_update)
  then show "claimed (p_id post) (snd (post_found_items_claim userId n d))"
    unfolding eq by (simp add: claim_update_def)
next
  fix k rqs assume "claimed k d"
  then show "claimed k (handle_all rqs d)" by (rule claimed_handle_all)
qed

text \<open>On the example store: B claims the umbrella; a second claim by A, and a claim of
  a post that does not exist, are refused; the umbrella stays claimed.\<close>

theorem C6_claim_found_post_witness:
  "post_found_items_claim (Some ''user-B'') (Integer 1) db1 =
     (flash_redirect ''/found-items'' ''success''
        (''You claimed '' @ quoted ''Umbrella'' @ ''. Contact the finder at cy@x.com to arrange pickup.''),
      db2)
   \<and> claimed 1 db2
   \<and> post_found_items_claim (Some ''user-A'') (Integer 1) db2 =
       (flash_redirect ''/found-items'' ''error'' ''Post not found or already claimed.'', db2)
   \<and> post_found_items_claim (Some ''user-A'') (Integer 5) db2 =
       (flash_redirect ''/found-items'' ''error'' ''Post not found or already claimed.'', db2)
   \<and> claimed 1 (handle_all
        [(env1, PostFoundItems (form [(''finder_name'', ''Di''), (''finder_email'', ''di@x.com''),
                                      (''item_name'', ''Scarf'')]) None),
         (env1, PostFoundItemsClaim (Some ''user-A'') (Integer 1))] db2)"
proof -
  have a: "requireAuth (Some ''user-A'') = Some ''user-A''"
    and b: "requireAuth (Some ''user-B'') = Some ''user-B''"
    by (simp_all add: requireAuth_def)
  have u: "umbrella \<in> set (found_posts db1)" "Integer (p_id umbrella) = Integer 1"
    "p_status umbrella = ''unclaimed''"
    by (simp_all add: db1_def umbrella_def)
  have m: "db1\<lparr>found_posts :=
              map (\<lambda>p. if p_id p = 1 then p\<lparr>p_status := ''claimed''\<rparr> else p)
                (found_posts db1)\<rparr> = db2"
    by (simp add: db2_def db1_def umbrella_def)
  have f: "p_item_name umbrella = ''Umbrella''" "p_finder_email umbrella = ''cy@x.com''"
    "p_id umbrella = 1"
    by (simp_all add: umbrella_def)
  have n1: "\<not> (\<exists>p\<in>set (found_posts db2). Integer (p_id p) = Integer 1 \<and> p_status p = ''unclaimed'')"
    and n5: "\<not> (\<exists>p\<in>set (found_posts db2). Integer (p_id p) = Integer 5 \<and> p_status p = ''unclaimed'')"
    by (simp_all add: db2_def umbrella_def)
  note inst = C6_claim_found_post [OF b, of db1 "Integer 1", THEN conjunct2, THEN conjunct1,
      rule_format, of umbrella]
  from inst db_ok_db1 u
  have 1: "post_found_items_claim (Some ''user-B'') (Integer 1) db1 =
     (flash_redirect ''/found-items'' ''success''
        (''You claimed '' @ quoted ''Umbrella'' @ ''. Contact the finder at cy@x.com to arrange pickup.''),
      db2)"
    by (simp add: m f)
  from inst db_ok_db1 u
  have "claimed (p_id umbrella) (snd (post_found_items_claim (Some ''user-B'') (Integer 1) db1))"
    by blast
  then have 2: "claimed 1 (snd (post_found_items_claim (Some ''user-B'') (Integer 1) db1))"
    by (simp only: f)
  from 2 have c: "claimed 1 db2" unfolding 1 by simp
  from C6_claim_found_post [OF a, of db2 "Integer 1"] n1
  have 3: "post_found_items_claim (Some ''user-A'') (Integer 1) db2 =
       (flash_redirect ''/found-items'' ''error'' ''Post not found or already claimed.'', db2)"
    by blast
  from C6_claim_found_post [OF a, of db2 "Integer 5"] n5
  have 4: "post_found_items_claim (Some ''user-A'') (Integer 5) db2 =
       (flash_redirect ''/found-items'' ''error'' ''Post not found or already claimed.'', db2)"
    by blast
  from C6_claim_found_post [OF a, of db2 "Integer 1"] c
  have 5: "claimed 1 (handle_all
        [(env1, PostFoundItems (form [(''finder_name'', ''Di''), (''finder_email'', ''di@x.com''),
                                      (''item_name'', ''Scarf'')]) None),
         (env1, PostFoundItemsClaim (Some ''user-A'') (Integer 1))] db2)"
    by blast
  from 1 c 3 4 5 show ?thesis by blast
qed

section \<open>Finder reports\<close>

lemma seq_fresh:
  "db_ok d \<Longrightarrow> finder_reports_seq d \<notin> r_id ` set (finder_reports d)"
  by (auto simp: db_ok_def list_all_iff)

lemma no_email_without_at_and_domain:
  "CHR ''@'' \<notin> set email \<or> CHR ''.'' \<notin> set (dropWhile (\<lambda>c. c \<noteq> CHR ''@'') email)
     \<Longrightarrow> \<not> isValidEmail email"
  using isValidEmail_at isValidEmail_domain by blast

lemma sanitize_Str_length:
  "sanitize (Str raw) = Some s \<Longrightarrow> length s \<le> length raw"
  using length_trim_le [of raw] by (auto simp: sanitize_def)

lemma sanitize_form_simps:
  "sanitize (form [] f) = Some []"
  "sanitize (form ((k, v) # kvs) f) = (if f = k then Some (trim v) else sanitize (form kvs f))"
  by (simp_all add: sanitize_def form_def trim_def)

lemmas trim_eval = trim_def is_space_def

text \<open>
  C4. \<open>POST /found/:token\<close> on a body of string fields, \<open>finder_name\<close>, \<open>finder_email\<close>
  and \<open>message\<close> being the fields as \<open>sanitize\<close> returns them. A token that no item carries
  gives 404 (NotFound) and no report. When an item carries the token (on a store that
  meets the schema's constraints): a name shorter than 2, an e-mail that fails the
  pattern, or a message shorter than 3 is refused with an error flash and no report is
  created; otherwise, unless the store reports an error on the insert, a report with
  status \<open>open\<close> and the item's id is added. An e-mail with no \<open>@\<close>, or with no dot after
  its \<open>@\<close>, fails the pattern. A submitted name shorter than 2, or message shorter than 3,
  is so after \<open>sanitize\<close> too.
\<close>

theorem C4_submit_finder_report:
  assumes "sanitize (body ''finder_name'') = Some finder_name"
    and "sanitize (body ''finder_email'') = Some finder_email"
    and "sanitize (body ''location_hint'') = Some location_hint"
    and "sanitize (body ''message'') = Some message"
  shows
   "(\<not> (\<exists>i\<in>set (items d). i_token i = token) \<longrightarrow>
        post_found env token body d = (Status404, d))
    \<and> (\<forall>item. db_ok d \<and> item \<in> set (items d) \<and> i_token item = token \<longrightarrow>
          (length finder_name < 2 \<or> \<not> isValidEmail finder_email \<or> length message < 3 \<longrightarrow>
             (\<exists>m\<in>{''Name is too short.'', ''Invalid email.'', ''Message is too short.''}.
                post_found env token body d = (flash_redirect (''/found/'' @ token) ''error'' m, d)))
        \<and> (2 \<le> length finder_name \<and> isValidEmail finder_email \<and> 3 \<le> length message
             \<and> \<not> insert_error env \<longrightarrow>
             post_found env token body d =
               (flash_redirect (''/found/'' @ token) ''success'' ''Report submitted to owner!'',
                d\<lparr>finder_reports := finder_reports d @
                     [\<lparr>r_id = finder_reports_seq d,
                       r_item_id = i_id item,
                       r_finder_name = finder_name,
                       r_finder_email = finder_email,
                       r_location_hint = or_null location_hint,
                       r_message = message,
                       r_status = ''open''\<rparr>],
                   finder_reports_seq := finder_reports_seq d + 1\<rparr>)))
    \<and> (CHR ''@'' \<notin> set finder_email
          \<or> CHR ''.'' \<notin> set (dropWhile (\<lambda>c. c \<noteq> CHR ''@'') finder_email) \<longrightarrow>
        \<not> isValidEmail finder_email)
    \<and> (\<forall>raw. body ''finder_name'' = Str raw \<and> length raw < 2 \<longrightarrow> length finder_name < 2)
    \<and> (\<forall>raw. body ''message'' = Str raw \<and> length raw < 3 \<longrightarrow> length message < 3)"
proof (intro conjI impI allI)
  assume "\<not> (\<exists>i\<in>set (items d). i_token i = token)"
  then have "resolveToken d token = None" by (rule resolveToken_unbound)
  then show "post_found env token body d = (Status404, d)"
    using assms by (simp add: post_found_def)
next
  fix item
  assume a: "db_ok d \<and> item \<in> set (items d) \<and> i_token item = token"
  then have sel: "resolveToken d token = Some item"
    using resolveToken_bound [of d item] by (auto simp: db_ok_def)
  {
    assume "length finder_name < 2 \<or> \<not> isValidEmail finder_email \<or> length message < 3"
    then show "\<exists>m\<in>{''Name is too short.'', ''Invalid email.'', ''Message is too short.''}.
                post_found env token body d = (flash_redirect (''/found/'' @ token) ''error'' m, d)"
      using assms sel by (auto simp: post_found_def)
  }
  {
    assume ok: "2 \<le> length finder_name \<and> isValidEmail finder_email \<and> 3 \<le> length message
             \<and> \<not> insert_error env"
    from a have "finder_reports_seq d \<notin> r_id ` set (finder_reports d)" by (simp add: seq_fresh)
    then show "post_found env token body d =
               (flash_redirect (''/found/'' @ token) ''success'' ''Report submitted to owner!'',
                d\<lparr>finder_reports := finder_reports d @
                     [\<lparr>r_id = finder_reports_seq d,
                       r_item_id = i_id item,
                       r_finder_name = finder_name,
                       r_finder_email = finder_email,
                       r_location_hint = or_null location_hint,
                       r_message = message,
                       r_status = ''open''\<rparr>],
                   finder_reports_seq := finder_reports_seq d + 1\<rparr>)"
      using assms sel ok by (simp add: post_found_def insert_finder_report_def)
  }
next
  assume "CHR ''@'' \<notin> set finder_email
          \<or> CHR ''.'' \<notin> set (dropWhile (\<lambda>c. c \<noteq> CHR ''@'') finder_email)"
  then show "\<not> isValidEmail finder_email" by (rule no_email_without_at_and_domain)
next
  fix raw assume "body ''finder_name'' = Str raw \<and> length raw < 2"
  then show "length finder_name < 2"
    using assms(1) sanitize_Str_length [of raw finder_name] by simp
next
  fix raw assume "body ''message'' = Str raw \<and> length raw < 3"
  then show "length message < 3"
    using assms(4) sanitize_Str_length [of raw message] by simp
qed

text \<open>On the example store, with the scenario of the specification (Bo, bo@x.com,
  "saw it" on the laptop's token), and one refused request for each rule.\<close>

theorem C4_submit_finder_report_witness:
  "post_found env1 ''c0ffee''
      (form [(''finder_name'', ''Bo''), (''finder_email'', ''bo@x.com''), (''message'', ''saw it '')]) db1 =
     (flash_redirect ''/found/c0ffee'' ''success'' ''Report submitted to owner!'',
      db1\<lparr>finder_reports := [report1,
              \<lparr>r_id = 2, r_item_id = ''item-1'', r_finder_name = ''Bo'',
                r_finder_email = ''bo@x.com'', r_location_hint = None, r_message = ''saw it'',
                r_status = ''open''\<rparr>],
          finder_reports_seq := 3\<rparr>)
   \<and> post_found env1 ''c0ff''
      (form [(''finder_name'', ''Bo''), (''finder_email'', ''bo@x.com''), (''message'', ''saw it '')]) db1 =
     (Status404, db1)
   \<and> snd (post_found env1 ''c0ffee''
      (form [(''finder_name'', ''B''), (''finder_email'', ''bo@x.com''), (''message'', ''saw it'')]) db1) = db1
   \<and> snd (post_found env1 ''c0ffee''
      (form [(''finder_name'', ''Bo''), (''finder_email'', ''bo@x''), (''message'', ''saw it'')]) db1) = db1
   \<and> snd (post_found env1 ''c0ffee''
      (form [(''finder_name'', ''Bo''), (''finder_email'', ''bo@x.com''), (''message'', ''ok'')]) db1) = db1
   \<and> \<not> isValidEmail ''bo.x.com''"
proof -
  let ?ok = "form [(''finder_name'', ''Bo''), (''finder_email'', ''bo@x.com''), (''message'', ''saw it '')]"
  let ?b1 = "form [(''finder_name'', ''B''), (''finder_email'', ''bo@x.com''), (''message'', ''saw it'')]"
  let ?b2 = "form [(''finder_name'', ''Bo''), (''finder_email'', ''bo@x''), (''message'', ''saw it'')]"
  let ?b3 = "form [(''finder_name'', ''Bo''), (''finder_email'', ''bo@x.com''), (''message'', ''ok'')]"
  have i: "laptop \<in> set (items db1)" "i_token laptop = ''c0ffee''"
    by (simp_all add: db1_def laptop_def)
  have u: "\<not> (\<exists>i\<in>set (items db1). i_token i = ''c0ff'')"
    by (simp add: db1_def laptop_def)
  have v: "isValidEmail ''bo@x.com''" "\<not> isValidEmail ''bo@x''"
    by (simp_all add: isValidEmail_def email_regex_def not_space_at_def is_space_def)
  have e: "\<not> insert_error env1" by (simp add: env1_def)
  have sok: "sanitize (?ok ''finder_name'') = Some ''Bo''"
    "sanitize (?ok ''finder_email'') = Some ''bo@x.com''"
    "sanitize (?ok ''location_hint'') = Some []"
    "sanitize (?ok ''message'') = Some ''saw it''"
    by (simp_all add: sanitize_form_simps trim_eval)
  have s1: "sanitize (?b1 ''finder_name'') = Some ''B''"
    "sanitize (?b1 ''finder_email'') = Some ''bo@x.com''"
    "sanitize (?b1 ''location_hint'') = Some []"
    "sanitize (?b1 ''message'') = Some ''saw it''"
    by (simp_all add: sanitize_form_simps trim_eval)
  have s2: "sanitize (?b2 ''finder_name'') = Some ''Bo''"
    "sanitize (?b2 ''finder_email'') = Some ''bo@x''"
    "sanitize (?b2 ''location_hint'') = Some []"
    "sanitize (?b2 ''message'') = Some ''saw it''"
    by (simp_all add: sanitize_form_simps trim_eval)
  have s3: "sanitize (?b3 ''finder_name'') = Some ''Bo''"
    "sanitize (?b3 ''finder_email'') = Some ''bo@x.com''"
    "sanitize (?b3 ''location_hint'') = Some []"
    "sanitize (?b3 ''message'') = Some ''ok''"
    by (simp_all add: sanitize_form_simps trim_eval)
  have d: "db1\<lparr>finder_reports := finder_reports db1 @
                     [\<lparr>r_id = finder_reports_seq db1,
                       r_item_id = i_id laptop,
                       r_finder_name = ''Bo'',
                       r_finder_email = ''bo@x.com'',
                       r_location_hint = or_null [],
                       r_message = ''saw it'',
                       r_status = ''open''\<rparr>],
                   finder_reports_seq := finder_reports_seq db1 + 1\<rparr>
        = db1\<lparr>finder_reports := [report1,
              \<lparr>r_id = 2, r_item_id = ''item-1'', r_finder_name = ''Bo'',
                r_finder_email = ''bo@x.com'', r_location_hint = None, r_message = ''saw it'',
                r_status = ''open''\<rparr>],
          finder_reports_seq := 3\<rparr>"
    by (simp add: db1_def laptop_def or_null_def)
  have 1: "post_found env1 ''c0ffee'' ?ok db1 =
     (flash_redirect ''/found/c0ffee'' ''success'' ''Report submitted to owner!'',
      db1\<lparr>finder_reports := [report1,
              \<lparr>r_id = 2, r_item_id = ''item-1'', r_finder_name = ''Bo'',
                r_finder_email = ''bo@x.com'', r_location_hint = None, r_message = ''saw it'',
                r_status = ''open''\<rparr>],
          finder_reports_seq := 3\<rparr>)"
    using C4_submit_finder_report [OF sok, of db1 "''c0ffee''" env1, THEN conjunct2, THEN conjunct1,
        rule_format, of laptop, THEN conjunct2] db_ok_db1 i v e
    unfolding d by simp
  have 2: "post_found env1 ''c0ff'' ?ok db1 = (Status404, db1)"
    using C4_submit_finder_report [OF sok, of db1 "''c0ff''" env1] u by blast
  have 3: "snd (post_found env1 ''c0ffee'' ?b1 db1) = db1"
    using C4_submit_finder_report [OF s1, of db1 "''c0ffee''" env1, THEN conjunct2, THEN conjunct1,
        rule_format, of laptop, THEN conjunct1] db_ok_db1 i by auto
  have 4: "snd (post_found env1 ''c0ffee'' ?b2 db1) = db1"
    using C4_submit_finder_report [OF s2, of db1 "''c0ffee''" env1, THEN conjunct2, THEN conjunct1,
        rule_format, of laptop, THEN conjunct1] db_ok_db1 i v by auto
  have 5: "snd (post_found env1 ''c0ffee'' ?b3 db1) = db1"
    using C4_submit_finder_report [OF s3, of db1 "''c0ffee''" env1, THEN conjunct2, THEN conjunct1,
        rule_format, of laptop, THEN conjunct1] db_ok_db1 i by auto
  have s6: "sanitize (Str ''bo.x.com'') = Some ''bo.x.com''"
    by (simp add: sanitize_def trim_eval)
  have 6: "\<not> isValidEmail ''bo.x.com''"
    using C4_submit_finder_report [of "\<lambda>_. Str ''bo.x.com''", OF s6 s6 s6 s6, of db1 "''c0ffee''" env1]
    by simp
  from 1 2 3 4 5 6 show ?thesis by blast
qed

section \<open>Sightings of a lost item\<close>

lemma select_lost:
  assumes "distinct (map i_id (items d))" "item \<in> set (items d)" "i_item_status item = ''lost''"
  shows "maybeSingle (filter (\<lambda>i. i_id i = i_id item \<and> i_item_status i = ''lost'') (items d)) = Some item"
proof -
  have "filter (\<lambda>i. i_id i = i_id item) (items d) = [item]"
    using filter_key_singleton [OF assms(1,2)] .
  moreover have "filter (\<lambda>i. i_id i = i_id item \<and> i_item_status i = ''lost'') (items d)
    = filter (\<lambda>i. i_item_status i = ''lost'') (filter (\<lambda>i. i_id i = i_id item) (items d))"
    by (simp add: conj_commute)
  ultimately show ?thesis using assms(3) by (simp add: maybeSingle_def)
qed

text \<open>
  C5. \<open>POST /lost/:id/sighting\<close> on a body of string fields, \<open>reporter_name\<close>,
  \<open>reporter_email\<close> and \<open>message\<close> being the fields as \<open>sanitize\<close> returns them. When no
  item has this id and the status \<open>lost\<close> (the item is missing, or is not lost) the
  request is refused with the flash "Item not found." and no report is created. For an
  item that is lost (on a store that meets the schema's constraints) the rules of the
  finder report apply: a name shorter than 2, an e-mail that fails the pattern, or a
  message shorter than 3 is refused and no report is created; otherwise, unless the
  store reports an error on the insert, a report is added with status \<open>open\<close>, the item's
  id, and the message prefixed with \<open>[Sighting] \<close>.
\<close>

theorem C5_submit_sighting:
  assumes "sanitize (body ''reporter_name'') = Some reporter_name"
    and "sanitize (body ''reporter_email'') = Some reporter_email"
    and "sanitize (body ''location'') = Some location"
    and "sanitize (body ''message'') = Some message"
  shows
   "(\<not> (\<exists>i\<in>set (items d). i_id i = item_id \<and> i_item_status i = ''lost'') \<longrightarrow>
        post_lost_sighting env item_id body d =
          (flash_redirect ''/lost'' ''error'' ''Item not found.'', d))
    \<and> (\<forall>item. db_ok d \<and> item \<in> set (items d) \<and> i_id item = item_id
             \<and> i_item_status item = ''lost'' \<longrightarrow>
          (length reporter_name < 2 \<or> \<not> isValidEmail reporter_email \<or> length message < 3 \<longrightarrow>
             (\<exists>m\<in>{''Name is too short.'', ''Invalid email.'', ''Message is too short.''}.
                post_lost_sighting env item_id body d = (flash_redirect ''/lost'' ''error'' m, d)))
        \<and> (2 \<le> length reporter_name \<and> isValidEmail reporter_email \<and> 3 \<le> length message
             \<and> \<not> insert_error env \<longrightarrow>
             post_lost_sighting env item_id body d =
               (flash_redirect ''/lost'' ''success''
                  (''Sighting reported for '' @ quoted (i_item_name item)
                     @ ''. The owner has been notified!''),
                d\<lparr>finder_reports := finder_reports d @
                     [\<lparr>r_id = finder_reports_seq d,
                       r_item_id = item_id,
                       r_finder_name = reporter_name,
                       r_finder_email = reporter_email,
                       r_location_hint = or_null location,
                       r_message = ''[Sighting] '' @ message,
                       r_status = ''open''\<rparr>],
                   finder_reports_seq := finder_reports_seq d + 1\<rparr>)))"
proof (intro conjI impI allI)
  assume "\<not> (\<exists>i\<in>set (items d). i_id i = item_id \<and> i_item_status i = ''lost'')"
  then have "filter (\<lambda>i. i_id i = item_id \<and> i_item_status i = ''lost'') (items d) = []"
    by (simp add: filter_empty_conv)
  then show "post_lost_sighting env item_id body d =
          (flash_redirect ''/lost'' ''error'' ''Item not found.'', d)"
    using assms by (simp add: post_lost_sighting_def maybeSingle_Nil)
next
  fix item
  assume a: "db_ok d \<and> item \<in> set (items d) \<and> i_id item = item_id
             \<and> i_item_status item = ''lost''"
  then have sel: "maybeSingle (filter (\<lambda>i. i_id i = item_id \<and> i_item_status i = ''lost'') (items d)) = Some item"
    using select_lost [of d item] by (auto simp: db_ok_def)
  {
    assume "length reporter_name < 2 \<or> \<not> isValidEmail reporter_email \<or> length message < 3"
    then show "\<exists>m\<in>{''Name is too short.'', ''Invalid email.'', ''Message is too short.''}.
                post_lost_sighting env item_id body d = (flash_redirect ''/lost'' ''error'' m, d)"
      using assms sel by (auto simp: post_lost_sighting_def)
  }
  {
    assume ok: "2 \<le> length reporter_name \<and> isValidEmail reporter_email \<and> 3 \<le> length message
             \<and> \<not> insert_error env"
    from a have "finder_reports_seq d \<notin> r_id ` set (finder_reports d)" by (simp add: seq_fresh)
    then show "post_lost_sighting env item_id body d =
               (flash_redirect ''/lost'' ''success''
                  (''Sighting reported for '' @ quoted (i_item_name item)
                     @ ''. The owner has been notified!''),
                d\<lparr>finder_reports := finder_reports d @
                     [\<lparr>r_id = finder_reports_seq d,
                       r_item_id = item_id,
                       r_finder_name = reporter_name,
                       r_finder_email = reporter_email,
                       r_location_hint = or_null location,
                       r_message = ''[Sighting] '' @ message,
                       r_status = ''open''\<rparr>],
                   finder_reports_seq := finder_reports_seq d + 1\<rparr>)"
      using assms sel ok a by (simp add: post_lost_sighting_def insert_finder_report_def)
  }
qed

text \<open>On the example store, whose laptop is lost: a sighting is stored; an unknown id, and
  the laptop once it is \<open>active\<close>, are refused; so is a message of two characters.\<close>

theorem C5_submit_sighting_witness:
  "post_lost_sighting env1 ''item-1''
      (form [(''reporter_name'', ''Bo''), (''reporter_email'', ''bo@x.com''),
             (''location'', '' gym''), (''message'', ''saw it'')]) db1 =
     (flash_redirect ''/lost'' ''success''
        (''Sighting reported for '' @ quoted ''Laptop'' @ ''. The owner has been notified!''),
      db1\<lparr>finder_reports := [report1,
              \<lparr>r_id = 2, r_item_id = ''item-1'', r_finder_name = ''Bo'',
                r_finder_email = ''bo@x.com'', r_location_hint = Some ''gym'',
                r_message = ''[Sighting] saw it'', r_status = ''open''\<rparr>],
          finder_reports_seq := 3\<rparr>)
   \<and> post_lost_sighting env1 ''item-9''
      (form [(''reporter_name'', ''Bo''), (''reporter_email'', ''bo@x.com''),
             (''location'', '' gym''), (''message'', ''saw it'')]) db1 =
     (flash_redirect ''/lost'' ''error'' ''Item not found.'', db1)
   \<and> post_lost_sighting env1 ''item-1''
      (form [(''reporter_name'', ''Bo''), (''reporter_email'', ''bo@x.com''),
             (''location'', '' gym''), (''message'', ''saw it'')])
      (db1\<lparr>items := [laptop\<lparr>i_item_status := ''active''\<rparr>]\<rparr>) =
     (flash_redirect ''/lost'' ''error'' ''Item not found.'',
      db1\<lparr>items := [laptop\<lparr>i_item_status := ''active''\<rparr>]\<rparr>)
   \<and> snd (post_lost_sighting env1 ''item-1''
      (form [(''reporter_name'', ''Bo''), (''reporter_email'', ''bo@x.com''), (''message'', ''ok'')])
      db1) = db1"
proof -
  let ?ok = "form [(''reporter_name'', ''Bo''), (''reporter_email'', ''bo@x.com''),
             (''location'', '' gym''), (''message'', ''saw it'')]"
  let ?b3 = "form [(''reporter_name'', ''Bo''), (''reporter_email'', ''bo@x.com''), (''message'', ''ok'')]"
  let ?active = "db1\<lparr>items := [laptop\<lparr>i_item_status := ''active''\<rparr>]\<rparr>"
  have i: "laptop \<in> set (items db1)" "i_id laptop = ''item-1''" "i_item_status laptop = ''lost''"
    "i_item_name laptop = ''Laptop''"
    by (simp_all add: db1_def laptop_def)
  have u: "\<not> (\<exists>i\<in>set (items db1). i_id i = ''item-9'' \<and> i_item_status i = ''lost'')"
    by (simp add: db1_def laptop_def)
  have na: "\<not> (\<exists>i\<in>set (items ?active). i_id i = ''item-1'' \<and> i_item_status i = ''lost'')"
    by (simp add: db1_def laptop_def)
  have v: "isValidEmail ''bo@x.com''"
    by (simp add: isValidEmail_def email_regex_def not_space_at_def is_space_def)
  have e: "\<not> insert_error env1" by (simp add: env1_def)
  have sok: "sanitize (?ok ''reporter_name'') = Some ''Bo''"
    "sanitize (?ok ''reporter_email'') = Some ''bo@x.com''"
    "sanitize (?ok ''location'') = Some ''gym''"
    "sanitize (?ok ''message'') = Some ''saw it''"
    by (simp_all add: sanitize_form_simps trim_eval)
  have s3: "sanitize (?b3 ''reporter_name'') = Some ''Bo''"
    "sanitize (?b3 ''reporter_email'') = Some ''bo@x.com''"
    "sanitize (?b3 ''location'') = Some []"
    "sanitize (?b3 ''message'') = Some ''ok''"
    by (simp_all add: sanitize_form_simps trim_eval)
  have d: "db1\<lparr>finder_reports := finder_reports db1 @
                     [\<lparr>r_id = finder_reports_seq db1,
                       r_item_id = ''item-1'',
                       r_finder_name = ''Bo'',
                       r_finder_email = ''bo@x.com'',
                       r_location_hint = or_null ''gym'',
                       r_message = ''[Sighting] '' @ ''saw it'',
                       r_status = ''open''\<rparr>],
                   finder_reports_seq := finder_reports_seq db1 + 1\<rparr>
        = db1\<lparr>finder_reports := [report1,
              \<lparr>r_id = 2, r_item_id = ''item-1'', r_finder_name = ''Bo'',
                r_finder_email = ''bo@x.com'', r_location_hint = Some ''gym'',
                r_message = ''[Sighting] saw it'', r_status = ''open''\<rparr>],
          finder_reports_seq := 3\<rparr>"
    by (simp add: db1_def or_null_def)
  have 1: "post_lost_sighting env1 ''item-1'' ?ok db1 =
     (flash_redirect ''/lost'' ''success''
        (''Sighting reported for '' @ quoted ''Laptop'' @ ''. The owner has been notified!''),
      db1\<lparr>finder_reports := [report1,
              \<lparr>r_id = 2, r_item_id = ''item-1'', r_finder_name = ''Bo'',
                r_finder_email = ''bo@x.com'', r_location_hint = Some ''gym'',
                r_message = ''[Sighting] saw it'', r_status = ''open''\<rparr>],
          finder_reports_seq := 3\<rparr>)"
    using C5_submit_sighting [OF sok, of db1 "''item-1''" env1, THEN conjunct2,
        rule_format, of laptop, THEN conjunct2] db_ok_db1 i v e
    unfolding d [symmetric] by simp
  have 2: "post_lost_sighting env1 ''item-9'' ?ok db1 =
     (flash_redirect ''/lost'' ''error'' ''Item not found.'', db1)"
    using C5_submit_sighting [OF sok, of db1 "''item-9''" env1] u by blast
  have 3: "post_lost_sighting env1 ''item-1'' ?ok ?active =
     (flash_redirect ''/lost'' ''error'' ''Item not found.'', ?active)"
    using C5_submit_sighting [OF sok, of ?active "''item-1''" env1] na by blast
  have 4: "snd (post_lost_sighting env1 ''item-1'' ?b3 db1) = db1"
    using C5_submit_sighting [OF s3, of db1 "''item-1''" env1, THEN conjunct2,
        rule_format, of laptop, THEN conjunct1] db_ok_db1 i by auto
  from 1 2 3 4 show ?thesis by blast
qed

section \<open>Registering an item, posting a found item\<close>

lemma uploadImage_cases:
  "sharp_compress env buffer = None \<Longrightarrow> uploadImage env buffer prefix off = None"
  "sharp_compress env buffer = Some compressed \<Longrightarrow>
     storage_upload_error env (prefix @ ''-'' @ generateToken (random env) off @ ''.jpg'') compressed \<Longrightarrow>
     uploadImage env buffer prefix off = Some None"
  "sharp_compress env buffer = Some compressed \<Longrightarrow>
     \<not> storage_upload_error env (prefix @ ''-'' @ generateToken (random env) off @ ''.jpg'') compressed \<Longrightarrow>
     uploadImage env buffer prefix off =
       Some (Some (storage_public_url env (prefix @ ''-'' @ generateToken (random env) off @ ''.jpg'')))"
  by (simp_all add: uploadImage_def Let_def)

text \<open>The outcome of the optional upload: \<open>image_url\<close> is what the handler stores.\<close>

lemma post_dashboard_created:
  assumes "requireAuth userId = Some uid"
    and "sanitize (body ''item_name'') = Some item_name"
    and "sanitize (body ''item_description'') = Some item_description"
    and "item_name \<noteq> []" and "length item_name \<le> 150"
    and "qr_toDataURL env (BASE_URL env @ ''/found/'' @ generateToken (random env) 0) = Some qr_data_url"
    and "(case upload of None \<Rightarrow> Some None
          | Some buffer \<Rightarrow> uploadImage env buffer (generateToken (random env) 0) 16) = Some image_url"
    and "\<not> insert_error env"
    and "gen_random_uuid env \<notin> i_id ` set (items d)"
    and "generateToken (random env) 0 \<notin> i_token ` set (items d)"
  shows "post_dashboard env userId body upload d =
     (flash_redirect ''/dashboard'' ''success'' ''Item registered and QR generated.'',
      d\<lparr>items := items d @
          [\<lparr>i_id = gen_random_uuid env,
            i_user_id = uid,
            i_item_name = item_name,
            i_item_description = or_null item_description,
            i_category = category_or_other (or_default (body ''category'') ''Other''),
            i_item_status = ''active'',
            i_image_url = image_url,
            i_token = generateToken (random env) 0,
            i_qr_data_url = qr_data_url\<rparr>]\<rparr>)"
  using assms by (simp add: post_dashboard_def Let_def insert_item_def)

lemma post_found_items_created:
  assumes "sanitize (body ''finder_name'') = Some finder_name"
    and "sanitize (body ''finder_email'') = Some finder_email"
    and "sanitize (body ''item_name'') = Some item_name"
    and "sanitize (body ''item_description'') = Some item_description"
    and "sanitize (body ''location_found'') = Some location_found"
    and "2 \<le> length finder_name" and "isValidEmail finder_email"
    and "item_name \<noteq> []" and "length item_name \<le> 150"
    and "(case upload of None \<Rightarrow> Some None
          | Some buffer \<Rightarrow> uploadImage env buffer ''found'' 0) = Some image_url"
    and "\<not> insert_error env"
    and "found_posts_seq d \<notin> p_id ` set (found_posts d)"
  shows "post_found_items env body upload d =
     (flash_redirect ''/found-items'' ''success'' ''Found item posted! The owner can now find it here.'',
      d\<lparr>found_posts := found_posts d @
          [\<lparr>p_id = found_posts_seq d,
            p_finder_name = finder_name,
            p_finder_email = finder_email,
            p_item_name = item_name,
            p_item_description = or_null item_description,
            p_category = category_or_other (or_default (body ''category'') ''Other''),
            p_location_found = or_null location_found,
            p_image_url = image_url,
            p_status = ''unclaimed''\<rparr>],
         found_posts_seq := found_posts_seq d + 1\<rparr>)"
  using assms by (simp add: post_found_items_def Let_def insert_found_post_def)

lemma category_coerced:
  "\<not> (\<exists>s. v = Str s \<and> s \<in> set CATEGORIES) \<Longrightarrow>
     category_or_other (or_default v ''Other'') = ''Other''"
  by (cases v) (auto simp: category_or_other_def or_default_def)

lemma category_kept:
  "s \<in> set CATEGORIES \<Longrightarrow> category_or_other (or_default (Str s) ''Other'') = s"
  by (auto simp: category_or_other_def or_default_def CATEGORIES_def)

lemma trim_id:
  assumes "s \<noteq> []" and "\<not> is_space (hd s)" and "\<not> is_space (last s)"
  shows "trim s = s"
proof -
  have 1: "dropWhile is_space s = s"
    using assms(1,2) by (simp add: dropWhile_eq_self_iff)
  have "hd (rev s) = last s" using assms(1) by (simp add: hd_rev)
  then have "dropWhile is_space (rev s) = rev s"
    using assms(1,3) by (simp add: dropWhile_eq_self_iff)
  with 1 show ?thesis by (simp add: trim_def)
qed

lemma generateToken_env1: "generateToken (random env1) off = ''00000000000000000000000000000000''"
  by (simp add: generateToken_def toString_hex_def randomBytes_def hex_byte_def hex_digit_def
        upt_conv_Cons env1_def)

text \<open>
  C7. \<open>POST /dashboard\<close> by a logged-in user on a body of string fields, \<open>item_name\<close>
  being the field as \<open>sanitize\<close> returns it. An empty name (a missing field is one) or a
  name longer than 150 is refused with the flash "Item name is required (max 150
  characters)." and no item is created. A name of 1 to 150 characters: when the QR
  generator returns a data URL, the transcoder (if a file was sent) returns, and the
  store accepts the insert (it reports no error, and the new id and token are not in the
  table), the item is added with status \<open>active\<close>. Its image is null when no file was sent
  and also when the blob store reports an error on the upload; it is the public URL when
  the upload succeeds.
\<close>

theorem C7_register_item:
  assumes "requireAuth userId = Some uid"
    and "sanitize (body ''item_name'') = Some item_name"
    and "sanitize (body ''item_description'') = Some item_description"
  shows
   "(item_name = [] \<or> 150 < length item_name \<longrightarrow>
        post_dashboard env userId body file d =
          (flash_redirect ''/dashboard'' ''error'' ''Item name is required (max 150 characters).'', d))
    \<and> (body ''item_name'' = Undefined \<longrightarrow> item_name = [])
    \<and> (\<forall>qr_data_url image_url.
          item_name \<noteq> [] \<and> length item_name \<le> 150
          \<and> qr_toDataURL env (BASE_URL env @ ''/found/'' @ generateToken (random env) 0) = Some qr_data_url
          \<and> \<not> insert_error env
          \<and> gen_random_uuid env \<notin> i_id ` set (items d)
          \<and> generateToken (random env) 0 \<notin> i_token ` set (items d)
          \<and> (file = None \<and> image_url = None
              \<or> (\<exists>buffer compressed. file = Some buffer \<and> sharp_compress env buffer = Some compressed
                    \<and> storage_upload_error env
                         (generateToken (random env) 0 @ ''-'' @ generateToken (random env) 16 @ ''.jpg'')
                         compressed
                    \<and> image_url = None)
              \<or> (\<exists>buffer compressed. file = Some buffer \<and> sharp_compress env buffer = Some compressed
                    \<and> \<not> storage_upload_error env
                         (generateToken (random env) 0 @ ''-'' @ generateToken (random env) 16 @ ''.jpg'')
                         compressed
                    \<and> image_url = Some (storage_public_url env
                         (generateToken (random env) 0 @ ''-'' @ generateToken (random env) 16 @ ''.jpg''))))
          \<longrightarrow>
          post_dashboard env userId body file d =
            (flash_redirect ''/dashboard'' ''success'' ''Item registered and QR generated.'',
             d\<lparr>items := items d @
                 [\<lparr>i_id = gen_random_uuid env,
                   i_user_id = uid,
                   i_item_name = item_name,
                   i_item_description = or_null item_description,
                   i_category = category_or_other (or_default (body ''category'') ''Other''),
                   i_item_status = ''active'',
                   i_image_url = image_url,
                   i_token = generateToken (random env) 0,
                   i_qr_data_url = qr_data_url\<rparr>]\<rparr>))"
proof (intro conjI impI allI)
  assume "item_name = [] \<or> 150 < length item_name"
  then show "post_dashboard env userId body file d =
          (flash_redirect ''/dashboard'' ''error'' ''Item name is required (max 150 characters).'', d)"
    using assms by (auto simp: post_dashboard_def Let_def)
next
  assume "body ''item_name'' = Undefined"
  then show "item_name = []" using assms(2) by (simp add: sanitize_def trim_def)
next
  fix qr_data_url image_url
  assume a: "item_name \<noteq> [] \<and> length item_name \<le> 150
          \<and> qr_toDataURL env (BASE_URL env @ ''/found/'' @ generateToken (random env) 0) = Some qr_data_url
          \<and> \<not> insert_error env
          \<and> gen_random_uuid env \<notin> i_id ` set (items d)
          \<and> generateToken (random env) 0 \<notin> i_token ` set (items d)
          \<and> (file = None \<and> image_url = None
              \<or> (\<exists>buffer compressed. file = Some buffer \<and> sharp_compress env buffer = Some compressed
                    \<and> storage_upload_error env
                         (generateToken (random env) 0 @ ''-'' @ generateToken (random env) 16 @ ''.jpg'')
                         compressed
                    \<and> image_url = None)
              \<or> (\<exists>buffer compressed. file = Some buffer \<and> sharp_compress env buffer = Some compressed
                    \<and> \<not> storage_upload_error env
                         (generateToken (random env) 0 @ ''-'' @ generateToken (random env) 16 @ ''.jpg'')
                         compressed
                    \<and> image_url = Some (storage_public_url env
                         (generateToken (random env) 0 @ ''-'' @ generateToken (random env) 16 @ ''.jpg''))))"
  then have "(case file of None \<Rightarrow> Some None
          | Some buffer \<Rightarrow> uploadImage env buffer (generateToken (random env) 0) 16) = Some image_url"
    by (auto simp: uploadImage_cases)
  with a show "post_dashboard env userId body file d =
            (flash_redirect ''/dashboard'' ''success'' ''Item registered and QR generated.'',
             d\<lparr>items := items d @
                 [\<lparr>i_id = gen_random_uuid env,
                   i_user_id = uid,
                   i_item_name = item_name,
                   i_item_description = or_null item_description,
                   i_category = category_or_other (or_default (body ''category'') ''Other''),
                   i_item_status = ''active'',
                   i_image_url = image_url,
                   i_token = generateToken (random env) 0,
                   i_qr_data_url = qr_data_url\<rparr>]\<rparr>)"
    using post_dashboard_created [OF assms, where upload = "file" and image_url = image_url] by blast
qed

text \<open>On the example store: the blob store of \<open>env1\<close> refuses every upload and the item is
  created without image; with a blob store that accepts, the item gets the URL; a missing
  name and a name of 151 characters are refused.\<close>

theorem C7_register_item_witness:
  "post_dashboard env1 (Some ''user-A'') (form [(''item_name'', '' Phone'')]) (Some [1, 2, 3]) db1 =
     (flash_redirect ''/dashboard'' ''success'' ''Item registered and QR generated.'',
      db1\<lparr>items := [laptop,
          \<lparr>i_id = ''item-2'', i_user_id = ''user-A'', i_item_name = ''Phone'',
            i_item_description = None, i_category = ''Other'', i_item_status = ''active'',
            i_image_url = None, i_token = ''00000000000000000000000000000000'',
            i_qr_data_url = ''data:qr:http://localhost:5000/found/00000000000000000000000000000000''\<rparr>]\<rparr>)
   \<and> post_dashboard (env1\<lparr>storage_upload_error := \<lambda>fileName compressed. False\<rparr>)
        (Some ''user-A'') (form [(''item_name'', '' Phone'')]) (Some [1, 2, 3]) db1 =
     (flash_redirect ''/dashboard'' ''success'' ''Item registered and QR generated.'',
      db1\<lparr>items := [laptop,
          \<lparr>i_id = ''item-2'', i_user_id = ''user-A'', i_item_name = ''Phone'',
            i_item_description = None, i_category = ''Other'', i_item_status = ''active'',
            i_image_url = Some ''https://blobs/00000000000000000000000000000000-00000000000000000000000000000000.jpg'',
            i_token = ''00000000000000000000000000000000'',
            i_qr_data_url = ''data:qr:http://localhost:5000/found/00000000000000000000000000000000''\<rparr>]\<rparr>)
   \<and> post_dashboard env1 (Some ''user-A'') (form [(''item_description'', ''black'')]) None db1 =
     (flash_redirect ''/dashboard'' ''error'' ''Item name is required (max 150 characters).'', db1)
   \<and> post_dashboard env1 (Some ''user-A'') (form [(''item_name'', replicate 151 (CHR ''a''))]) None db1 =
     (flash_redirect ''/dashboard'' ''error'' ''Item name is required (max 150 characters).'', db1)"
proof -
  let ?ok = "form [(''item_name'', '' Phone'')]"
  let ?missing = "form [(''item_description'', ''black'')]"
  let ?long = "form [(''item_name'', replicate 151 (CHR ''a''))]"
  let ?env2 = "env1\<lparr>storage_upload_error := \<lambda>fileName compressed. False\<rparr>"
  let ?t = "''00000000000000000000000000000000''"
  let ?qr = "''data:qr:http://localhost:5000/found/00000000000000000000000000000000''"
  have a: "requireAuth (Some ''user-A'') = Some ''user-A''"
    by (simp add: requireAuth_def)
  have sok: "sanitize (?ok ''item_name'') = Some ''Phone''"
    "sanitize (?ok ''item_description'') = Some []"
    by (simp_all add: sanitize_form_simps trim_eval)
  have sm: "sanitize (?missing ''item_name'') = Some []"
    "sanitize (?missing ''item_description'') = Some ''black''"
    by (simp_all add: sanitize_form_simps trim_eval)
  have "trim (replicate 151 (CHR ''a'')) = replicate 151 (CHR ''a'')"
    by (rule trim_id) (simp_all add: is_space_def)
  then have sl: "sanitize (?long ''item_name'') = Some (replicate 151 (CHR ''a''))"
    "sanitize (?long ''item_description'') = Some []"
    by (simp_all add: sanitize_form_simps)
  have t2: "generateToken (random ?env2) off = ?t" for off
    using generateToken_env1 [of off] by simp
  have cat: "category_or_other (or_default (?ok ''category'') ''Other'') = ''Other''"
    by (simp add: form_def category_or_other_def or_default_def CATEGORIES_def)
  have prem1: "''Phone'' \<noteq> [] \<and> length ''Phone'' \<le> 150
          \<and> qr_toDataURL env1 (BASE_URL env1 @ ''/found/'' @ generateToken (random env1) 0) = Some ?qr
          \<and> \<not> insert_error env1
          \<and> gen_random_uuid env1 \<notin> i_id ` set (items db1)
          \<and> generateToken (random env1) 0 \<notin> i_token ` set (items db1)
          \<and> (Some [1, 2, 3] = None \<and> None = None
              \<or> (\<exists>buffer compressed. Some [1, 2, 3] = Some buffer \<and> sharp_compress env1 buffer = Some compressed
                    \<and> storage_upload_error env1
                         (generateToken (random env1) 0 @ ''-'' @ generateToken (random env1) 16 @ ''.jpg'')
                         compressed
                    \<and> None = None)
              \<or> (\<exists>buffer compressed. Some [1, 2, 3] = Some buffer \<and> sharp_compress env1 buffer = Some compressed
                    \<and> \<not> storage_upload_error env1
                         (generateToken (random env1) 0 @ ''-'' @ generateToken (random env1) 16 @ ''.jpg'')
                         compressed
                    \<and> None = Some (storage_public_url env1
                         (generateToken (random env1) 0 @ ''-'' @ generateToken (random env1) 16 @ ''.jpg''))))"
    unfolding generateToken_env1 by (simp add: env1_def db1_def laptop_def)
  have prem2: "''Phone'' \<noteq> [] \<and> length ''Phone'' \<le> 150
          \<and> qr_toDataURL ?env2 (BASE_URL ?env2 @ ''/found/'' @ generateToken (random ?env2) 0) = Some ?qr
          \<and> \<not> insert_error ?env2
          \<and> gen_random_uuid ?env2 \<notin> i_id ` set (items db1)
          \<and> generateToken (random ?env2) 0 \<notin> i_token ` set (items db1)
          \<and> (Some [1, 2, 3] = None
                \<and> Some ''https://blobs/00000000000000000000000000000000-00000000000000000000000000000000.jpg'' = None
              \<or> (\<exists>buffer compressed. Some [1, 2, 3] = Some buffer \<and> sharp_compress ?env2 buffer = Some compressed
                    \<and> storage_upload_error ?env2
                         (generateToken (random ?env2) 0 @ ''-'' @ generateToken (random ?env2) 16 @ ''.jpg'')
                         compressed
                    \<and> Some ''https://blobs/00000000000000000000000000000000-00000000000000000000000000000000.jpg'' = None)
              \<or> (\<exists>buffer compressed. Some [1, 2, 3] = Some buffer \<and> sharp_compress ?env2 buffer = Some compressed
                    \<and> \<not> storage_upload_error ?env2
                         (generateToken (random ?env2) 0 @ ''-'' @ generateToken (random ?env2) 16 @ ''.jpg'')
                         compressed
                    \<and> Some ''https://blobs/00000000000000000000000000000000-00000000000000000000000000000000.jpg''
                       = Some (storage_public_url ?env2
                         (generateToken (random ?env2) 0 @ ''-'' @ generateToken (random ?env2) 16 @ ''.jpg''))))"
    unfolding t2 by (simp add: env1_def db1_def laptop_def)
  have i: "items db1 = [laptop]" by (simp add: db1_def)
  have e: "gen_random_uuid env1 = ''item-2''" "gen_random_uuid ?env2 = ''item-2''"
    by (simp_all add: env1_def)
  have 1: "post_dashboard env1 (Some ''user-A'') ?ok (Some [1, 2, 3]) db1 =
     (flash_redirect ''/dashboard'' ''success'' ''Item registered and QR generated.'',
      db1\<lparr>items := [laptop,
          \<lparr>i_id = ''item-2'', i_user_id = ''user-A'', i_item_name = ''Phone'',
            i_item_description = None, i_category = ''Other'', i_item_status = ''active'',
            i_image_url = None, i_token = ?t, i_qr_data_url = ?qr\<rparr>]\<rparr>)"
    using C7_register_item [OF a sok, THEN conjunct2, THEN conjunct2, rule_format, OF prem1]
    unfolding generateToken_env1 cat i e by (simp add: or_null_def)
  have 2: "post_dashboard ?env2 (Some ''user-A'') ?ok (Some [1, 2, 3]) db1 =
     (flash_redirect ''/dashboard'' ''success'' ''Item registered and QR generated.'',
      db1\<lparr>items := [laptop,
          \<lparr>i_id = ''item-2'', i_user_id = ''user-A'', i_item_name = ''Phone'',
            i_item_description = None, i_category = ''Other'', i_item_status = ''active'',
            i_image_url = Some ''https://blobs/00000000000000000000000000000000-00000000000000000000000000000000.jpg'',
            i_token = ?t, i_qr_data_url = ?qr\<rparr>]\<rparr>)"
    using C7_register_item [OF a sok, THEN conjunct2, THEN conjunct2, rule_format, OF prem2]
    unfolding t2 cat i e by (simp add: or_null_def)
  have 3: "post_dashboard env1 (Some ''user-A'') ?missing None db1 =
     (flash_redirect ''/dashboard'' ''error'' ''Item name is required (max 150 characters).'', db1)"
    using C7_register_item [OF a sm, of env1 None db1] by simp
  have 4: "post_dashboard env1 (Some ''user-A'') ?long None db1 =
     (flash_redirect ''/dashboard'' ''error'' ''Item name is required (max 150 characters).'', db1)"
    using C7_register_item [OF a sl, of env1 None db1] by simp
  from 1 2 3 4 show ?thesis by blast
qed

text \<open>When the transcoder throws on the file sent, the handler's \<open>catch\<close> block answers
  and no item is created.\<close>

lemma post_dashboard_transcoder_throws:
  assumes "requireAuth userId = Some uid"
    and "sanitize (body ''item_name'') = Some item_name"
    and "sanitize (body ''item_description'') = Some item_description"
    and "sharp_compress env buffer = None"
  shows "snd (post_dashboard env userId body (Some buffer) d) = d"
  using assms
  by (auto simp: post_dashboard_def Let_def uploadImage_cases split: option.splits)

section \<open>The category of a new record\<close>

lemma post_dashboard_category:
  "category_or_other (or_default (body ''category'') ''Other'')
     = category_or_other (or_default (body' ''category'') ''Other'') \<Longrightarrow>
   body ''item_name'' = body' ''item_name'' \<Longrightarrow>
   body ''item_description'' = body' ''item_description'' \<Longrightarrow>
   post_dashboard env userId body file d = post_dashboard env userId body' file d"
  by (simp add: post_dashboard_def Let_def split: option.splits)

lemma post_found_items_category:
  "category_or_other (or_default (body ''category'') ''Other'')
     = category_or_other (or_default (body' ''category'') ''Other'') \<Longrightarrow>
   body ''finder_name'' = body' ''finder_name'' \<Longrightarrow>
   body ''finder_email'' = body' ''finder_email'' \<Longrightarrow>
   body ''item_name'' = body' ''item_name'' \<Longrightarrow>
   body ''item_description'' = body' ''item_description'' \<Longrightarrow>
   body ''location_found'' = body' ''location_found'' \<Longrightarrow>
   post_found_items env body file d = post_found_items env body' file d"
  by (simp add: post_found_items_def Let_def split: option.splits)

lemma found_seq_fresh:
  "db_ok d \<Longrightarrow> found_posts_seq d \<notin> p_id ` set (found_posts d)"
  by (auto simp: db_ok_def list_all_iff)

text \<open>
  C10. A submitted category that is not one of the nine of \<open>CATEGORIES\<close> (any other
  string, a missing field, an array or object) does not get the request refused:
  \<open>POST /dashboard\<close> and \<open>POST /found-items\<close> answer and write exactly as for the same
  request with the category \<open>Other\<close>. When the other fields pass and the surroundings
  allow the record to be created (as in C7; for a found post: name of 2 or more, valid
  e-mail, item name of 1 to 150, the upload step returns, the store accepts), the record
  is created with the category \<open>Other\<close>.
\<close>

theorem C10_category_coerced:
  assumes "\<not> (\<exists>s. body ''category'' = Str s \<and> s \<in> set CATEGORIES)"
  shows
   "post_dashboard env userId body file d
      = post_dashboard env userId (body(''category'' := Str ''Other'')) file d
    \<and> post_found_items env body file d
      = post_found_items env (body(''category'' := Str ''Other'')) file d
    \<and> (\<forall>uid item_name item_description qr_data_url image_url.
          requireAuth userId = Some uid
          \<and> sanitize (body ''item_name'') = Some item_name
          \<and> sanitize (body ''item_description'') = Some item_description
          \<and> item_name \<noteq> [] \<and> length item_name \<le> 150
          \<and> qr_toDataURL env (BASE_URL env @ ''/found/'' @ generateToken (random env) 0) = Some qr_data_url
          \<and> (case file of None \<Rightarrow> Some None
              | Some buffer \<Rightarrow> uploadImage env buffer (generateToken (random env) 0) 16) = Some image_url
          \<and> \<not> insert_error env
          \<and> gen_random_uuid env \<notin> i_id ` set (items d)
          \<and> generateToken (random env) 0 \<notin> i_token ` set (items d) \<longrightarrow>
          post_dashboard env userId body file d =
            (flash_redirect ''/dashboard'' ''success'' ''Item registered and QR generated.'',
             d\<lparr>items := items d @
                 [\<lparr>i_id = gen_random_uuid env,
                   i_user_id = uid,
                   i_item_name = item_name,
                   i_item_description = or_null item_description,
                   i_category = ''Other'',
                   i_item_status = ''active'',
                   i_image_url = image_url,
                   i_token = generateToken (random env) 0,
                   i_qr_data_url = qr_data_url\<rparr>]\<rparr>))
    \<and> (\<forall>finder_name finder_email item_name item_description location_found image_url.
          sanitize (body ''finder_name'') = Some finder_name
          \<and> sanitize (body ''finder_email'') = Some finder_email
          \<and> sanitize (body ''item_name'') = Some item_name
          \<and> sanitize (body ''item_description'') = Some item_description
          \<and> sanitize (body ''location_found'') = Some location_found
          \<and> 2 \<le> length finder_name \<and> isValidEmail finder_email
          \<and> item_name \<noteq> [] \<and> length item_name \<le> 150
          \<and> (case file of None \<Rightarrow> Some None
              | Some buffer \<Rightarrow> uploadImage env buffer ''found'' 0) = Some image_url
          \<and> \<not> insert_error env \<and> db_ok d \<longrightarrow>
          post_found_items env body file d =
            (flash_redirect ''/found-items'' ''success''
               ''Found item posted! The owner can now find it here.'',
             d\<lparr>found_posts := found_posts d @
                 [\<lparr>p_id = found_posts_seq d,
                   p_finder_name = finder_name,
                   p_finder_email = finder_email,
                   p_item_name = item_name,
                   p_item_description = or_null item_description,
                   p_category = ''Other'',
                   p_location_found = or_null location_found,
                   p_image_url = image_url,
                   p_status = ''unclaimed''\<rparr>],
                found_posts_seq := found_posts_seq d + 1\<rparr>))"
proof -
  have c: "category_or_other (or_default (body ''category'') ''Other'') = ''Other''"
    using assms by (rule category_coerced)
  have o: "category_or_other (or_default ((body(''category'' := Str ''Other'')) ''category'') ''Other'') = ''Other''"
    by (simp add: category_kept CATEGORIES_def)
  show ?thesis
  proof (intro conjI impI allI)
    show "post_dashboard env userId body file d
      = post_dashboard env userId (body(''category'' := Str ''Other'')) file d"
      by (rule post_dashboard_category) (simp_all add: c o del: fun_upd_apply, simp_all)
    show "post_found_items env body file d
      = post_found_items env (body(''category'' := Str ''Other'')) file d"
      by (rule post_found_items_category) (simp_all add: c o del: fun_upd_apply, simp_all)
  next
    fix uid item_name item_description qr_data_url image_url
    assume "requireAuth userId = Some uid
          \<and> sanitize (body ''item_name'') = Some item_name
          \<and> sanitize (body ''item_description'') = Some item_description
          \<and> item_name \<noteq> [] \<and> length item_name \<le> 150
          \<and> qr_toDataURL env (BASE_URL env @ ''/found/'' @ generateToken (random env) 0) = Some qr_data_url
          \<and> (case file of None \<Rightarrow> Some None
              | Some buffer \<Rightarrow> uploadImage env buffer (generateToken (random env) 0) 16) = Some image_url
          \<and> \<not> insert_error env
          \<and> gen_random_uuid env \<notin> i_id ` set (items d)
          \<and> generateToken (random env) 0 \<notin> i_token ` set (items d)"
    then show "post_dashboard env userId body file d =
            (flash_redirect ''/dashboard'' ''success'' ''Item registered and QR generated.'',
             d\<lparr>items := items d @
                 [\<lparr>i_id = gen_random_uuid env,
                   i_user_id = uid,
                   i_item_name = item_name,
                   i_item_description = or_null item_description,
                   i_category = ''Other'',
                   i_item_status = ''active'',
                   i_image_url = image_url,
                   i_token = generateToken (random env) 0,
                   i_qr_data_url = qr_data_url\<rparr>]\<rparr>)"
      using post_dashboard_created [where userId = userId and body = body and env = env and d = d
          and upload = "file" and image_url = image_url]
      unfolding c by blast
  next
    fix finder_name finder_email item_name item_description location_found image_url
    assume a: "sanitize (body ''finder_name'') = Some finder_name
          \<and> sanitize (body ''finder_email'') = Some finder_email
          \<and> sanitize (body ''item_name'') = Some item_name
          \<and> sanitize (body ''item_description'') = Some item_description
          \<and> sanitize (body ''location_found'') = Some location_found
          \<and> 2 \<le> length finder_name \<and> isValidEmail finder_email
          \<and> item_name \<noteq> [] \<and> length item_name \<le> 150
          \<and> (case file of None \<Rightarrow> Some None
              | Some buffer \<Rightarrow> uploadImage env buffer ''found'' 0) = Some image_url
          \<and> \<not> insert_error env \<and> db_ok d"
    then have "found_posts_seq d \<notin> p_id ` set (found_posts d)" by (simp add: found_seq_fresh)
    with a show "post_found_items env body file d =
            (flash_redirect ''/found-items'' ''success''
               ''Found item posted! The owner can now find it here.'',
             d\<lparr>found_posts := found_posts d @
                 [\<lparr>p_id = found_posts_seq d,
                   p_finder_name = finder_name,
                   p_finder_email = finder_email,
                   p_item_name = item_name,
                   p_item_description = or_null item_description,
                   p_category = ''Other'',
                   p_location_found = or_null location_found,
                   p_image_url = image_url,
                   p_status = ''unclaimed''\<rparr>],
                found_posts_seq := found_posts_seq d + 1\<rparr>)"
      using post_found_items_created [where body = body and env = env and d = d
          and upload = "file" and image_url = image_url]
      unfolding c by blast
  qed
qed

text \<open>On the example store, with the category \<open>Banana\<close>.\<close>

theorem C10_category_coerced_witness:
  "post_dashboard env1 (Some ''user-A'') (form [(''item_name'', ''Phone''), (''category'', ''Banana'')]) None db1 =
     (flash_redirect ''/dashboard'' ''success'' ''Item registered and QR generated.'',
      db1\<lparr>items := [laptop,
          \<lparr>i_id = ''item-2'', i_user_id = ''user-A'', i_item_name = ''Phone'',
            i_item_description = None, i_category = ''Other'', i_item_status = ''active'',
            i_image_url = None, i_token = ''00000000000000000000000000000000'',
            i_qr_data_url = ''data:qr:http://localhost:5000/found/00000000000000000000000000000000''\<rparr>]\<rparr>)
   \<and> post_found_items env1
        (form [(''finder_name'', ''Di''), (''finder_email'', ''di@x.com''), (''item_name'', ''Scarf''),
               (''category'', ''Banana'')]) None db1 =
     (flash_redirect ''/found-items'' ''success'' ''Found item posted! The owner can now find it here.'',
      db1\<lparr>found_posts := [umbrella,
          \<lparr>p_id = 2, p_finder_name = ''Di'', p_finder_email = ''di@x.com'', p_item_name = ''Scarf'',
            p_item_description = None, p_category = ''Other'', p_location_found = None,
            p_image_url = None, p_status = ''unclaimed''\<rparr>],
         found_posts_seq := 3\<rparr>)
   \<and> post_dashboard env1 (Some ''user-A'') (form [(''item_name'', ''Phone''), (''category'', ''Banana'')]) None db1
     = post_dashboard env1 (Some ''user-A'')
         ((form [(''item_name'', ''Phone''), (''category'', ''Banana'')])(''category'' := Str ''Other'')) None db1"
proof -
  let ?b1 = "form [(''item_name'', ''Phone''), (''category'', ''Banana'')]"
  let ?b2 = "form [(''finder_name'', ''Di''), (''finder_email'', ''di@x.com''), (''item_name'', ''Scarf''),
               (''category'', ''Banana'')]"
  let ?t = "''00000000000000000000000000000000''"
  let ?qr = "''data:qr:http://localhost:5000/found/00000000000000000000000000000000''"
  have n1: "\<not> (\<exists>s. ?b1 ''category'' = Str s \<and> s \<in> set CATEGORIES)"
    and n2: "\<not> (\<exists>s. ?b2 ''category'' = Str s \<and> s \<in> set CATEGORIES)"
    by (simp_all add: form_def CATEGORIES_def)
  have prem1: "requireAuth (Some ''user-A'') = Some ''user-A''
          \<and> sanitize (?b1 ''item_name'') = Some ''Phone''
          \<and> sanitize (?b1 ''item_description'') = Some []
          \<and> ''Phone'' \<noteq> [] \<and> length ''Phone'' \<le> 150
          \<and> qr_toDataURL env1 (BASE_URL env1 @ ''/found/'' @ generateToken (random env1) 0) = Some ?qr
          \<and> (case None of None \<Rightarrow> Some None
              | Some buffer \<Rightarrow> uploadImage env1 buffer (generateToken (random env1) 0) 16) = Some None
          \<and> \<not> insert_error env1
          \<and> gen_random_uuid env1 \<notin> i_id ` set (items db1)
          \<and> generateToken (random env1) 0 \<notin> i_token ` set (items db1)"
    unfolding generateToken_env1
    by (simp add: requireAuth_def sanitize_form_simps trim_eval env1_def db1_def laptop_def)
  have v: "isValidEmail ''di@x.com''"
    by (simp add: isValidEmail_def email_regex_def not_space_at_def is_space_def)
  have prem2: "sanitize (?b2 ''finder_name'') = Some ''Di''
          \<and> sanitize (?b2 ''finder_email'') = Some ''di@x.com''
          \<and> sanitize (?b2 ''item_name'') = Some ''Scarf''
          \<and> sanitize (?b2 ''item_description'') = Some []
          \<and> sanitize (?b2 ''location_found'') = Some []
          \<and> 2 \<le> length ''Di'' \<and> isValidEmail ''di@x.com''
          \<and> ''Scarf'' \<noteq> [] \<and> length ''Scarf'' \<le> 150
          \<and> (case None of None \<Rightarrow> Some None
              | Some buffer \<Rightarrow> uploadImage env1 buffer ''found'' 0) = Some None
          \<and> \<not> insert_error env1 \<and> db_ok db1"
    using v db_ok_db1 by (simp add: sanitize_form_simps trim_eval env1_def)
  have e: "gen_random_uuid env1 = ''item-2''" by (simp add: env1_def)
  have 1: "post_dashboard env1 (Some ''user-A'') ?b1 None db1 =
     (flash_redirect ''/dashboard'' ''success'' ''Item registered and QR generated.'',
      db1\<lparr>items := [laptop,
          \<lparr>i_id = ''item-2'', i_user_id = ''user-A'', i_item_name = ''Phone'',
            i_item_description = None, i_category = ''Other'', i_item_status = ''active'',
            i_image_url = None, i_token = ?t, i_qr_data_url = ?qr\<rparr>]\<rparr>)"
    using C10_category_coerced [of ?b1 env1 "Some ''user-A''" None db1, OF n1,
        THEN conjunct2, THEN conjunct2, THEN conjunct1, rule_format, OF prem1]
    unfolding generateToken_env1 e by (simp add: or_null_def db1_def)
  have 2: "post_found_items env1 ?b2 None db1 =
     (flash_redirect ''/found-items'' ''success'' ''Found item posted! The owner can now find it here.'',
      db1\<lparr>found_posts := [umbrella,
          \<lparr>p_id = 2, p_finder_name = ''Di'', p_finder_email = ''di@x.com'', p_item_name = ''Scarf'',
            p_item_description = None, p_category = ''Other'', p_location_found = None,
            p_image_url = None, p_status = ''unclaimed''\<rparr>],
         found_posts_seq := 3\<rparr>)"
    using C10_category_coerced [of ?b2 env1 "Some ''user-A''" None db1, OF n2,
        THEN conjunct2, THEN conjunct2, THEN conjunct2, rule_format, OF prem2]
    by (simp add: or_null_def db1_def)
  have 3: "post_dashboard env1 (Some ''user-A'') ?b1 None db1
     = post_dashboard env1 (Some ''user-A'') (?b1(''category'' := Str ''Other'')) None db1"
    using C10_category_coerced [of ?b1 env1 "Some ''user-A''" None db1, OF n1, THEN conjunct1] .
  from 1 2 3 show ?thesis by blast
qed

section \<open>Two requests on the same post or report\<close>

lemma claim_update_idem: "claim_update post (claim_update post d) = claim_update post d"
  by (simp add: claim_update_def comp_def if_distrib cong: if_cong)

lemma claim_select_after_update:
  "claim_select (Integer (p_id post)) (claim_update post d) = None"
proof -
  have "list_all (\<lambda>p. p_id p = p_id post \<longrightarrow> p_status p = ''claimed'') (found_posts (claim_update post d))"
    by (simp add: claim_update_def list_all_map_claim_same)
  then have "filter (\<lambda>p. Integer (p_id p) = Integer (p_id post) \<and> p_status p = ''unclaimed'')
               (found_posts (claim_update post d)) = []"
    by (auto simp: filter_empty_conv list_all_iff)
  then show ?thesis by (simp add: claim_select_def maybeSingle_Nil)
qed

lemma resolve_update_idem:
  "r_id report' = r_id report \<Longrightarrow>
   resolve_update report' (resolve_update report d) = resolve_update report d"
  by (simp add: resolve_update_def comp_def if_distrib cong: if_cong)

lemma map_r_id_resolve:
  "map r_id (map (\<lambda>r. if r_id r = k then r\<lparr>r_status := ''resolved''\<rparr> else r) rs) = map r_id rs"
  by (induction rs) auto

lemma resolve_select_after_update:
  assumes "distinct (map r_id (finder_reports d))" "report \<in> set (finder_reports d)"
  shows "maybeSingle (filter (\<lambda>r. Integer (r_id r) = Integer (r_id report))
           (finder_reports (resolve_update report d))) = Some (report\<lparr>r_status := ''resolved''\<rparr>)"
proof -
  let ?d = "resolve_update report d"
  let ?r = "report\<lparr>r_status := ''resolved''\<rparr>"
  have "distinct (map r_id (finder_reports ?d))"
    using assms(1) by (simp add: resolve_update_def map_r_id_resolve del: map_map)
  moreover have "?r \<in> set (finder_reports ?d)"
    using assms(2) by (auto simp: resolve_update_def image_iff intro!: bexI [of _ report])
  ultimately have "maybeSingle (filter (\<lambda>r. Integer (r_id r) = Integer (r_id ?r)) (finder_reports ?d)) = Some ?r"
    by (rule select_by_r_id)
  then show ?thesis by simp
qed

text \<open>
  C9, as the code has it. The claim handler reads the post (with the status
  \<open>unclaimed\<close>) and then updates the row by id, in two store operations; the update does
  not look at the status again. On a store that meets the schema's constraints, for two
  logged-in users and a post that is unclaimed: handled one after the other, the first
  claim succeeds and the second is refused with "Post not found or already claimed.";
  when both reads return before either update, both claims succeed. In both runs the
  post ends claimed. The resolve handler does not read the report's status: two
  requests of the owner, one after the other, both succeed, and the report ends resolved.
\<close>

theorem C9_two_claims_two_resolves:
  assumes "requireAuth userA = Some a" and "requireAuth userB = Some b" and "db_ok d"
  shows
   "(\<forall>post. post \<in> set (found_posts d) \<and> Integer (p_id post) = n \<and> p_status post = ''unclaimed'' \<longrightarrow>
        claim_twice_in_turn userA userB n d =
          (flash_redirect ''/found-items'' ''success''
             (''You claimed '' @ quoted (p_item_name post) @ ''. Contact the finder at ''
                @ p_finder_email post @ '' to arrange pickup.''),
           flash_redirect ''/found-items'' ''error'' ''Post not found or already claimed.'',
           claim_update post d)
      \<and> claim_twice_interleaved n d =
          (flash_redirect ''/found-items'' ''success''
             (''You claimed '' @ quoted (p_item_name post) @ ''. Contact the finder at ''
                @ p_finder_email post @ '' to arrange pickup.''),
           flash_redirect ''/found-items'' ''success''
             (''You claimed '' @ quoted (p_item_name post) @ ''. Contact the finder at ''
                @ p_finder_email post @ '' to arrange pickup.''),
           claim_update post d))
    \<and> (\<forall>report item. report \<in> set (finder_reports d) \<and> Integer (r_id report) = n
          \<and> item \<in> set (items d) \<and> i_id item = r_item_id report \<and> i_user_id item = a \<longrightarrow>
        resolve_twice_in_turn userA n d =
          (flash_redirect ''/dashboard'' ''success'' ''Report marked as resolved.'',
           flash_redirect ''/dashboard'' ''success'' ''Report marked as resolved.'',
           resolve_update report d))"
proof (intro conjI impI allI)
  fix post
  assume p: "post \<in> set (found_posts d) \<and> Integer (p_id post) = n \<and> p_status post = ''unclaimed''"
  then have sel: "claim_select n d = Some post"
    using select_unclaimed [of d post] assms(3) by (auto simp: db_ok_def)
  from p have none: "claim_select n (claim_update post d) = None"
    using claim_select_after_update [of post d] by auto
  show "claim_twice_in_turn userA userB n d =
          (flash_redirect ''/found-items'' ''success''
             (''You claimed '' @ quoted (p_item_name post) @ ''. Contact the finder at ''
                @ p_finder_email post @ '' to arrange pickup.''),
           flash_redirect ''/found-items'' ''error'' ''Post not found or already claimed.'',
           claim_update post d)"
    using assms(1,2) sel none
    by (simp add: claim_twice_in_turn_def post_found_items_claim_def claim_respond_def)
  show "claim_twice_interleaved n d =
          (flash_redirect ''/found-items'' ''success''
             (''You claimed '' @ quoted (p_item_name post) @ ''. Contact the finder at ''
                @ p_finder_email post @ '' to arrange pickup.''),
           flash_redirect ''/found-items'' ''success''
             (''You claimed '' @ quoted (p_item_name post) @ ''. Contact the finder at ''
                @ p_finder_email post @ '' to arrange pickup.''),
           claim_update post d)"
    using sel by (simp add: claim_twice_interleaved_def claim_respond_def claim_update_idem)
next
  fix report item
  assume r: "report \<in> set (finder_reports d) \<and> Integer (r_id report) = n
          \<and> item \<in> set (items d) \<and> i_id item = r_item_id report \<and> i_user_id item = a"
  then have sel1: "maybeSingle (filter (\<lambda>r. Integer (r_id r) = n) (finder_reports d)) = Some report"
    using select_by_r_id [of d report] assms(3) by (auto simp: db_ok_def)
  from r have sel2: "maybeSingle (filter (\<lambda>r. Integer (r_id r) = n) (finder_reports (resolve_update report d)))
      = Some (report\<lparr>r_status := ''resolved''\<rparr>)"
    using resolve_select_after_update [of d report] assms(3) by (auto simp: db_ok_def)
  from r have it: "single (filter (\<lambda>i. i_id i = r_item_id report) (items d)) = Some item"
    using select_by_i_id [of d item] assms(3) by (auto simp: db_ok_def single_Some_iff)
  have items: "items (resolve_update report d) = items d" by (simp add: resolve_update_def)
  have first: "post_report_resolve userA n d =
      (flash_redirect ''/dashboard'' ''success'' ''Report marked as resolved.'', resolve_update report d)"
    using assms(1) sel1 it r by (simp add: post_report_resolve_def)
  have second: "post_report_resolve userA n (resolve_update report d) =
      (flash_redirect ''/dashboard'' ''success'' ''Report marked as resolved.'', resolve_update report d)"
    using assms(1) sel2 it r by (simp add: post_report_resolve_def items resolve_update_idem)
  show "resolve_twice_in_turn userA n d =
          (flash_redirect ''/dashboard'' ''success'' ''Report marked as resolved.'',
           flash_redirect ''/dashboard'' ''success'' ''Report marked as resolved.'',
           resolve_update report d)"
    by (simp add: resolve_twice_in_turn_def first second)
qed

text \<open>
  C9 as stated fails on the example store: with both reads before either update, both
  claims of the umbrella get the success flash; and two resolve requests of the owner A
  on the open report 1 both get the success flash.
\<close>

theorem C9_concurrent_counterexample:
  "claim_twice_interleaved (Integer 1) db1 =
     (flash_redirect ''/found-items'' ''success''
        (''You claimed '' @ quoted ''Umbrella'' @ ''. Contact the finder at cy@x.com to arrange pickup.''),
      flash_redirect ''/found-items'' ''success''
        (''You claimed '' @ quoted ''Umbrella'' @ ''. Contact the finder at cy@x.com to arrange pickup.''),
      db2)
   \<and> resolve_twice_in_turn (Some ''user-A'') (Integer 1) db1 =
     (flash_redirect ''/dashboard'' ''success'' ''Report marked as resolved.'',
      flash_redirect ''/dashboard'' ''success'' ''Report marked as resolved.'',
      db1\<lparr>finder_reports := [report1\<lparr>r_status := ''resolved''\<rparr>]\<rparr>)"
proof
  have sel: "claim_select (Integer 1) db1 = Some umbrella"
    by (simp add: claim_select_def db1_def umbrella_def maybeSingle_def)
  have upd: "claim_update umbrella db1 = db2" "claim_update umbrella db2 = db2"
    by (simp_all add: claim_update_def db1_def db2_def umbrella_def)
  show "claim_twice_interleaved (Integer 1) db1 =
     (flash_redirect ''/found-items'' ''success''
        (''You claimed '' @ quoted ''Umbrella'' @ ''. Contact the finder at cy@x.com to arrange pickup.''),
      flash_redirect ''/found-items'' ''success''
        (''You claimed '' @ quoted ''Umbrella'' @ ''. Contact the finder at cy@x.com to arrange pickup.''),
      db2)"
    by (simp add: claim_twice_interleaved_def claim_respond_def sel upd) (simp add: umbrella_def)
next
  let ?d = "db1\<lparr>finder_reports := [report1\<lparr>r_status := ''resolved''\<rparr>]\<rparr>"
  have a: "requireAuth (Some ''user-A'') = Some ''user-A''" by (simp add: requireAuth_def)
  have 1: "post_report_resolve (Some ''user-A'') (Integer 1) db1 =
      (flash_redirect ''/dashboard'' ''success'' ''Report marked as resolved.'', ?d)"
    by (simp add: post_report_resolve_def a resolve_update_def db1_def report1_def laptop_def
          maybeSingle_def single_def)
  have 2: "post_report_resolve (Some ''user-A'') (Integer 1) ?d =
      (flash_redirect ''/dashboard'' ''success'' ''Report marked as resolved.'', ?d)"
    by (simp add: post_report_resolve_def a resolve_update_def db1_def report1_def laptop_def
          maybeSingle_def single_def)
  show "resolve_twice_in_turn (Some ''user-A'') (Integer 1) db1 =
     (flash_redirect ''/dashboard'' ''success'' ''Report marked as resolved.'',
      flash_redirect ''/dashboard'' ''success'' ''Report marked as resolved.'', ?d)"
    by (simp add: resolve_twice_in_turn_def 1 2)
qed

text \<open>On the example store: B and then A claim the umbrella.\<close>

theorem C9_two_claims_two_resolves_witness:
  "claim_twice_in_turn (Some ''user-B'') (Some ''user-A'') (Integer 1) db1 =
     (flash_redirect ''/found-items'' ''success''
        (''You claimed '' @ quoted ''Umbrella'' @ ''. Contact the finder at cy@x.com to arrange pickup.''),
      flash_redirect ''/found-items'' ''error'' ''Post not found or already claimed.'',
      db2)
   \<and> fst (snd (claim_twice_interleaved (Integer 1) db1)) =
      flash_redirect ''/found-items'' ''success''
        (''You claimed '' @ quoted ''Umbrella'' @ ''. Contact the finder at cy@x.com to arrange pickup.'')
   \<and> fst (snd (resolve_twice_in_turn (Some ''user-A'') (Integer 1) db1)) =
      flash_redirect ''/dashboard'' ''success'' ''Report marked as resolved.''"
proof -
  have a: "requireAuth (Some ''user-A'') = Some ''user-A''"
    and b: "requireAuth (Some ''user-B'') = Some ''user-B''"
    by (simp_all add: requireAuth_def)
  have u: "umbrella \<in> set (found_posts db1) \<and> Integer (p_id umbrella) = Integer 1
      \<and> p_status umbrella = ''unclaimed''"
    by (simp add: db1_def umbrella_def)
  have r: "report1 \<in> set (finder_reports db1) \<and> Integer (r_id report1) = Integer 1
          \<and> laptop \<in> set (items db1) \<and> i_id laptop = r_item_id report1 \<and> i_user_id laptop = ''user-A''"
    by (simp add: db1_def report1_def laptop_def)
  have upd: "claim_update umbrella db1 = db2"
    by (simp add: claim_update_def db1_def db2_def umbrella_def)
  have f: "p_item_name umbrella = ''Umbrella''" "p_finder_email umbrella = ''cy@x.com''"
    by (simp_all add: umbrella_def)
  note claims = C9_two_claims_two_resolves [OF b a db_ok_db1, of "Integer 1", THEN conjunct1,
      rule_format, OF u]
  note resolves = C9_two_claims_two_resolves [OF a b db_ok_db1, of "Integer 1", THEN conjunct2,
      rule_format, OF r]
  have 1: "claim_twice_in_turn (Some ''user-B'') (Some ''user-A'') (Integer 1) db1 =
     (flash_redirect ''/found-items'' ''success''
        (''You claimed '' @ quoted ''Umbrella'' @ ''. Contact the finder at cy@x.com to arrange pickup.''),
      flash_redirect ''/found-items'' ''error'' ''Post not found or already claimed.'',
      db2)"
    using claims [THEN conjunct1] unfolding upd f by simp
  have 2: "fst (snd (claim_twice_interleaved (Integer 1) db1)) =
      flash_redirect ''/found-items'' ''success''
        (''You claimed '' @ quoted ''Umbrella'' @ ''. Contact the finder at cy@x.com to arrange pickup.'')"
    using claims [THEN conjunct2] unfolding upd f by simp
  have 3: "fst (snd (resolve_twice_in_turn (Some ''user-A'') (Integer 1) db1)) =
      flash_redirect ''/dashboard'' ''success'' ''Report marked as resolved.''"
    using resolves by simp
  from 1 2 3 show ?thesis by blast
qed

section \<open>Recovery tokens\<close>

lemma toString36_1700000000000: "toString36 1700000000000 = ''loyw3v28''"
  by (simp add: toString36.simps digit36_def)

lemma toString36_1700000000001: "toString36 1700000000001 = ''loyw3v29''"
  by (simp add: toString36.simps digit36_def)

text \<open>
  C3. The claim asks of every recovery token that it come from a cryptographically
  strong random source with at least 128 bits, and that it be no time-derived or
  reduced-alphabet identifier. The token function of the first revision of server.js
  does not meet it: its result is the base-36 digits of \<open>Math.random()\<close> followed by the
  clock in base 36. Here with the clock at 1700000000000 ms and one millisecond later,
  and with another random text at the same millisecond: the last eight characters are
  the clock, and the rest is the random text.
\<close>

theorem C3_cryptoRandomToken_time_derived:
  "cryptoRandomToken ''0.4fzyo82mvyr'' 1700000000000 = ''4fzyo82mvyrloyw3v28''
   \<and> cryptoRandomToken ''0.4fzyo82mvyr'' 1700000000001 = ''4fzyo82mvyrloyw3v29''
   \<and> cryptoRandomToken ''0.8xk2'' 1700000000000 = ''8xk2loyw3v28''"
  by (simp add: cryptoRandomToken_def slice_from_def toString36_1700000000000 toString36_1700000000001)

text \<open>For every input the token ends with the clock's base-36 text.\<close>

lemma cryptoRandomToken_ends_with_clock:
  "drop (length (cryptoRandomToken random36 now) - length (toString36 now))
     (cryptoRandomToken random36 now) = toString36 now"
  by (simp add: cryptoRandomToken_def)

lemma hex_digit_inj: "i < 16 \<Longrightarrow> j < 16 \<Longrightarrow> hex_digit i = hex_digit j \<Longrightarrow> i = j"
proof -
  assume a: "i < 16" "j < 16" "hex_digit i = hex_digit j"
  have "distinct ''0123456789abcdef''" by simp
  moreover have "i < length ''0123456789abcdef''" "j < length ''0123456789abcdef''"
    using a by simp_all
  ultimately show "i = j"
    using a(3) unfolding hex_digit_def by (simp only: nth_eq_iff_index_eq)
qed

lemma hex_byte_inj: "hex_byte b = hex_byte c \<Longrightarrow> b = c"
proof -
  assume a: "hex_byte b = hex_byte c"
  have lt: "unat b < 256" "unat c < 256"
    using unsigned_less [of b, where ?'a = nat] unsigned_less [of c, where ?'a = nat] by simp_all
  from a have d: "hex_digit (unat b div 16) = hex_digit (unat c div 16)"
    "hex_digit (unat b mod 16) = hex_digit (unat c mod 16)"
    by (simp_all add: hex_byte_def)
  have "unat b div 16 = unat c div 16"
    by (rule hex_digit_inj) (use lt d(1) in simp_all)
  moreover have "unat b mod 16 = unat c mod 16"
    by (rule hex_digit_inj) (use d(2) in simp_all)
  ultimately have "unat b = unat c"
    by (metis div_mult_mod_eq)
  then show "b = c" by (simp add: word_unat_eq_iff)
qed

lemma toString_hex_inj:
  "length bs = length cs \<Longrightarrow> toString_hex bs = toString_hex cs \<Longrightarrow> bs = cs"
proof (induction bs cs rule: list_induct2)
  case Nil
  then show ?case by simp
next
  case (Cons b bs c cs)
  from Cons.prems have "hex_byte b @ toString_hex bs = hex_byte c @ toString_hex cs"
    by (simp add: toString_hex_def)
  moreover have "length (hex_byte b) = length (hex_byte c)" by (simp add: hex_byte_def)
  ultimately have "hex_byte b = hex_byte c" "toString_hex bs = toString_hex cs"
    by simp_all
  then show ?case using Cons.IH hex_byte_inj by simp
qed

lemma length_toString_hex: "length (toString_hex bs) = 2 * length bs"
  by (induction bs) (simp_all add: toString_hex_def hex_byte_def)

text \<open>The second revision's token: 32 hexadecimal characters that determine, and are
  determined by, the 16 bytes read from the random source, and nothing else.\<close>

lemma generateToken_bits:
  "length (generateToken src off) = 32
   \<and> (generateToken src off = generateToken src' off'
        \<longleftrightarrow> randomBytes src off 16 = randomBytes src' off' 16)"
proof
  show "length (generateToken src off) = 32"
    by (simp add: generateToken_def length_toString_hex randomBytes_def)
  show "generateToken src off = generateToken src' off'
        \<longleftrightarrow> randomBytes src off 16 = randomBytes src' off' 16"
    using toString_hex_inj [of "randomBytes src off 16" "randomBytes src' off' 16"]
    unfolding generateToken_def by (auto simp: randomBytes_def simp del: map_eq_conv)
qed

section \<open>Every request keeps the schema's constraints\<close>

lemma db_ok_insert_item:
  "insert_item env row d = Some d' \<Longrightarrow> db_ok d \<Longrightarrow> db_ok d'"
  by (auto simp: insert_item_def db_ok_def split: if_splits)

lemma db_ok_insert_finder_report:
  "insert_finder_report env row d = Some d' \<Longrightarrow> r_id row = finder_reports_seq d \<Longrightarrow>
   db_ok d \<Longrightarrow> db_ok d'"
  by (auto simp: insert_finder_report_def db_ok_def list_all_iff split: if_splits
           intro!: order.strict_implies_order)

lemma db_ok_insert_found_post:
  "insert_found_post env row d = Some d' \<Longrightarrow> p_id row = found_posts_seq d \<Longrightarrow>
   db_ok d \<Longrightarrow> db_ok d'"
  by (auto simp: insert_found_post_def db_ok_def list_all_iff split: if_splits
           intro!: order.strict_implies_order)

lemma map_p_id_claim:
  "map p_id (map (\<lambda>p. if p_id p = k then p\<lparr>p_status := ''claimed''\<rparr> else p) ps) = map p_id ps"
  by (induction ps) auto

lemma map_i_id_status:
  "map i_id (map (\<lambda>i. if i_id i = k then i\<lparr>i_item_status := s\<rparr> else i) xs) = map i_id xs"
  "map i_token (map (\<lambda>i. if i_id i = k then i\<lparr>i_item_status := s\<rparr> else i) xs) = map i_token xs"
  by (induction xs) auto

lemma db_ok_claim_update: "db_ok d \<Longrightarrow> db_ok (claim_update post d)"
  by (auto simp: db_ok_def claim_update_def map_p_id_claim list_all_iff simp del: map_map)

lemma db_ok_resolve_update: "db_ok d \<Longrightarrow> db_ok (resolve_update report d)"
  by (auto simp: db_ok_def resolve_update_def map_r_id_resolve list_all_iff simp del: map_map)

lemma db_ok_post_dashboard: "db_ok d \<Longrightarrow> db_ok (snd (post_dashboard env userId body file d))"
  by (auto simp: post_dashboard_def Let_def split: option.splits if_splits dest: db_ok_insert_item)

lemma db_ok_post_lost_sighting: "db_ok d \<Longrightarrow> db_ok (snd (post_lost_sighting env item_id body d))"
  by (auto simp: post_lost_sighting_def split: option.splits if_splits
           dest!: db_ok_insert_finder_report)

lemma db_ok_post_found: "db_ok d \<Longrightarrow> db_ok (snd (post_found env token body d))"
  by (auto simp: post_found_def split: option.splits if_splits dest!: db_ok_insert_finder_report)

lemma db_ok_post_found_items: "db_ok d \<Longrightarrow> db_ok (snd (post_found_items env body file d))"
  by (auto simp: post_found_items_def Let_def split: option.splits if_splits
           dest!: db_ok_insert_found_post)

lemma db_ok_post_found_items_claim: "db_ok d \<Longrightarrow> db_ok (snd (post_found_items_claim userId n d))"
  by (auto simp: post_found_items_claim_def claim_respond_def db_ok_claim_update split: option.splits)

lemma db_ok_post_report_resolve: "db_ok d \<Longrightarrow> db_ok (snd (post_report_resolve userId n d))"
  by (auto simp: post_report_resolve_def db_ok_resolve_update split: option.splits)

lemma db_ok_post_item_status: "db_ok d \<Longrightarrow> db_ok (snd (post_item_status userId item_id body d))"
  by (auto simp: post_item_status_def db_ok_def map_i_id_status
           split: option.splits form_value.splits simp del: map_map)

lemma db_ok_post_item_delete: "db_ok d \<Longrightarrow> db_ok (snd (post_item_delete userId item_id d))"
  by (auto simp: post_item_delete_def db_ok_def distinct_map_filter list_all_iff split: option.splits)

lemma db_ok_handle: "db_ok d \<Longrightarrow> db_ok (snd (handle env rq d))"
  by (cases rq)
    (simp_all add: db_ok_post_dashboard db_ok_post_lost_sighting db_ok_post_found
       db_ok_post_found_items db_ok_post_found_items_claim db_ok_post_report_resolve
       db_ok_post_item_status db_ok_post_item_delete)

text \<open>Every store reached from the empty one by handling requests meets the constraints.\<close>

lemma db_ok_handle_all: "db_ok d \<Longrightarrow> db_ok (handle_all rqs d)"
proof (induction rqs arbitrary: d)
  case Nil
  then show ?case by simp
next
  case (Cons a rqs)
  obtain env rq where a: "a = (env, rq)" by (cases a)
  from Cons.prems have "db_ok (snd (handle env rq d))" by (rule db_ok_handle)
  then show ?case unfolding a by (simp add: Cons.IH)
qed

lemma db_ok_empty:
  "db_ok \<lparr>users = us, items = [], finder_reports = [], found_posts = [],
          finder_reports_seq = 1, found_posts_seq = 1\<rparr>"
  by (simp add: db_ok_def)

end
